theory Spec2Isabelle
  imports Main "HOL-Library.Word"
begin

section \<open>Smart Resume Screener: the backend of \<open>src/backend/main.py\<close>\<close>

text \<open>
  The backend is one request handler, \<open>analyze_resumes\<close>, which validates a batch of
  uploaded files and then, file by file, extracts the text (\<open>parse_resume_file\<close>), asks
  the generative model for a score (\<open>get_analysis\<close>) and commits one row to the table
  \<open>resume_analyses\<close>.

  Python's \<open>str\<close> is modelled by \<open>string\<close>; the characters of the model are the code
  points below 256. Exceptions are values of the type \<open>exn\<close>, and a function that may
  raise returns \<open>exn + 'a\<close>. The libraries and services the handler calls (PyPDF2,
  python-docx, the UTF-8 decoder, the Gemini client, \<open>json.loads\<close>, the SQLite engine and
  the clock) are the fields of the record \<open>env\<close>. The \<open>print\<close> calls of the source write
  to standard output only and are left out.
\<close>

subsection \<open>Strings\<close>

text \<open>\<open>str.isspace\<close> on one character: the white space of Unicode below code point 256.\<close>

definition isspace :: "char \<Rightarrow> bool" where
  "isspace c =
     (let n = (of_char c :: nat)
      in (9 \<le> n \<and> n \<le> 13) \<or> (28 \<le> n \<and> n \<le> 32) \<or> n = 133 \<or> n = 160)"

text \<open>\<open>s.strip()\<close>: white space removed at both ends.\<close>

definition strip :: "string \<Rightarrow> string" where
  "strip s = rev (dropWhile isspace (rev (dropWhile isspace s)))"

text \<open>\<open>s.startswith(p)\<close> and \<open>s.endswith(p)\<close>.\<close>

definition startswith :: "string \<Rightarrow> string \<Rightarrow> bool" where
  "startswith s p = (take (length p) s = p)"

definition endswith :: "string \<Rightarrow> string \<Rightarrow> bool" where
  "endswith s p = (length p \<le> length s \<and> drop (length s - length p) s = p)"

text \<open>\<open>s.lower()\<close>: the upper-case letters below code point 256 are \<open>A\<close> to \<open>Z\<close> and
  the accented capitals 192 to 222 without the multiplication sign 215; each lies 32 below
  its lower-case letter.\<close>

definition lower_char :: "char \<Rightarrow> char" where
  "lower_char c =
     (let n = (of_char c :: nat)
      in if (65 \<le> n \<and> n \<le> 90) \<or> (192 \<le> n \<and> n \<le> 222 \<and> n \<noteq> 215)
         then char_of (n + 32) else c)"

definition lower :: "string \<Rightarrow> string" where
  "lower s = map lower_char s"

text \<open>Decimal notation of a status code, as an f-string prints it.\<close>

fun str_nat :: "nat \<Rightarrow> string" where
  "str_nat n =
     (if n < 10 then [char_of (48 + n)]
      else str_nat (n div 10) @ [char_of (48 + n mod 10)])"


definition str_int :: "int \<Rightarrow> string" where
  "str_int n = (if n < 0 then ''-'' @ str_nat (nat (- n)) else str_nat (nat n))"

subsection \<open>JSON values and exceptions\<close>

text \<open>What \<open>json.loads\<close> returns: \<open>None\<close>, a \<open>bool\<close>, an \<open>int\<close>, a \<open>float\<close> (the 64 bits
  of the IEEE double, so that \<open>NaN\<close>, the infinities and \<open>-0.0\<close> are values), a \<open>str\<close>, a
  \<open>list\<close> or a \<open>dict\<close>, the latter as the list of its items.\<close>

datatype json =
    JNull
  | JBool bool
  | JInt int
  | JFloat "64 word"
  | JStr string
  | JArr "json list"
  | JObj "(string \<times> json) list"

text \<open>A double is a NaN when its 11 exponent bits are set and its 52 fraction bits are
  not all zero.\<close>

definition is_nan :: "64 word \<Rightarrow> bool" where
  "is_nan r = (take_bit 11 (drop_bit 52 r) = 2047 \<and> take_bit 52 r \<noteq> 0)"

text \<open>The exceptions that reach the handler. \<open>HTTPException\<close> carries \<open>status_code\<close> and
  \<open>detail\<close>, \<open>KeyError\<close> the missing key, \<open>UnboundLocalError\<close> the name of the variable;
  the others carry the text that \<open>str(e)\<close> gives.\<close>

datatype exn =
    HTTPException nat string
  | JSONDecodeError string
  | KeyError string
  | TypeError string
  | UnboundLocalError string
  | PyException string

text \<open>\<open>str(e)\<close>. Starlette prints an \<open>HTTPException\<close> as status code, colon, detail;
  a \<open>KeyError\<close> prints the \<open>repr\<close> of the key. The messages of \<open>UnboundLocalError\<close> and,
  below, of \<open>TypeError\<close> are those of CPython 3.11; no statement depends on their
  wording.\<close>

fun str_exn :: "exn \<Rightarrow> string" where
  "str_exn (HTTPException status detail) = str_nat status @ '': '' @ detail"
| "str_exn (JSONDecodeError m) = m"
| "str_exn (KeyError k) = [CHR 0x27] @ k @ [CHR 0x27]"
| "str_exn (TypeError m) = m"
| "str_exn (UnboundLocalError v) =
     ''cannot access local variable '' @ [CHR 0x27] @ v @ [CHR 0x27]
       @ '' where it is not associated with a value''"
| "str_exn (PyException m) = m"

text \<open>The subscript \<open>analysis[key]\<close> with a \<open>str\<close> key: only a \<open>dict\<close> has one.\<close>

fun getitem :: "json \<Rightarrow> string \<Rightarrow> exn + json" where
  "getitem (JObj items) k =
     (case map_of items k of None \<Rightarrow> Inl (KeyError k) | Some v \<Rightarrow> Inr v)"
| "getitem (JArr xs) k = Inl (TypeError ''list indices must be integers or slices, not str'')"
| "getitem (JStr s) k =
     Inl (TypeError (''string indices must be integers, not '' @ [CHR 0x27] @ ''str'' @ [CHR 0x27]))"
| "getitem JNull k = Inl (TypeError ([CHR 0x27] @ ''NoneType'' @ [CHR 0x27] @ '' object is not subscriptable''))"
| "getitem (JBool b) k = Inl (TypeError ([CHR 0x27] @ ''bool'' @ [CHR 0x27] @ '' object is not subscriptable''))"
| "getitem (JInt n) k = Inl (TypeError ([CHR 0x27] @ ''int'' @ [CHR 0x27] @ '' object is not subscriptable''))"
| "getitem (JFloat r) k = Inl (TypeError ([CHR 0x27] @ ''float'' @ [CHR 0x27] @ '' object is not subscriptable''))"

subsection \<open>Files, rows and the environment\<close>

type_synonym bytes = "8 word list"

record upload_file =
  filename :: string
  content :: bytes

text \<open>A \<open>ResumeAnalysis\<close> object as the handler builds it.\<close>

record resume_analysis =
  ra_filename :: string
  ra_job_description :: string
  ra_score :: json
  ra_justification :: json

text \<open>What SQLite keeps in a column of a row: \<open>NULL\<close>, an integer of 64 bits, a double or
  a text.\<close>

datatype cell =
    SqlNull
  | SqlInteger int
  | SqlReal "64 word"
  | SqlText string

text \<open>A row of the table \<open>resume_analyses\<close>. The columns \<open>filename\<close> and
  \<open>job_description\<close> only ever receive a \<open>str\<close> and keep it; \<open>score\<close> is declared
  \<open>INTEGER\<close> and \<open>justification\<close> \<open>TEXT\<close>, and what they keep depends on the value
  inserted; \<open>id\<close> and \<open>created_at\<close> are filled in by the insert.\<close>

record row =
  row_id :: int
  row_filename :: string
  row_job_description :: string
  row_score :: cell
  row_justification :: cell
  row_created_at :: nat

text \<open>The outside world. The generative model, the commit and the clock take the position
  of the file in the batch, so that every call of one request may be answered differently.
  \<^item> \<open>generate_content\<close> gives the exception that \<open>model.generate_content(prompt)\<close>
    raises, or the response; a response is what reading \<open>response.text\<close> gives: an
    exception, or the text (\<open>None\<close> when absent).
  \<^item> \<open>json_loads\<close> is \<open>json.loads\<close>.
  \<^item> \<open>bind_error\<close> is the message of the exception that the SQLite driver raises for a
    value it cannot bind.
  \<^item> \<open>real_as_integer\<close>, \<open>text_as_number\<close> and \<open>real_as_text\<close> are the conversions of
    SQLite's column affinity that need floating point: the integer that a double equals,
    if one does; the number that a text spells, if it spells one; the text form of a
    double.
  \<^item> \<open>commit_error\<close> gives the message of the exception that \<open>db.commit()\<close> raises for the
    pending objects for a reason of the database itself, if it raises.
  \<^item> \<open>random_rowid\<close> is the \<open>id\<close> that SQLite picks when the largest one is in use.
  \<^item> \<open>utcnow\<close> is the clock.\<close>

record env =
  pdf_pages :: "bytes \<Rightarrow> exn + string list"
  docx_paragraphs :: "bytes \<Rightarrow> exn + string list"
  decode_utf8 :: "bytes \<Rightarrow> exn + string"
  generate_content :: "nat \<Rightarrow> string \<Rightarrow> exn + (exn + string option)"
  json_loads :: "string \<Rightarrow> exn + json"
  bind_error :: "json \<Rightarrow> string"
  real_as_integer :: "64 word \<Rightarrow> int option"
  text_as_number :: "string \<Rightarrow> cell option"
  real_as_text :: "64 word \<Rightarrow> string"
  commit_error :: "nat \<Rightarrow> resume_analysis list \<Rightarrow> string option"
  random_rowid :: "int list \<Rightarrow> int"
  utcnow :: "nat \<Rightarrow> nat"
subsection \<open>\<open>parse_resume_file\<close>\<close>

text \<open>The dispatch on the file name is case-sensitive. The content has been read before
  the dispatch.\<close>

definition parse_resume_file :: "env \<Rightarrow> upload_file \<Rightarrow> exn + string" where
  "parse_resume_file env file =
     (if endswith (filename file) ''.pdf'' then
        (case pdf_pages env (content file) of
           Inl e \<Rightarrow> Inl e
         | Inr pages \<Rightarrow> Inr (concat (map (\<lambda>page. page @ ''\<newline>'') pages)))
      else if endswith (filename file) ''.docx'' then
        (case docx_paragraphs env (content file) of
           Inl e \<Rightarrow> Inl e
         | Inr paragraphs \<Rightarrow> Inr (concat (map (\<lambda>paragraph. paragraph @ ''\<newline>'') paragraphs)))
      else if endswith (filename file) ''.txt'' then
        decode_utf8 env (content file)
      else
        Inl (HTTPException 400 (''Unsupported file type: '' @ filename file)))"

subsection \<open>\<open>get_analysis\<close>\<close>

definition prompt :: "string \<Rightarrow> string \<Rightarrow> string" where
  \<open>prompt resume_text jd_text =
     ''You are an expert HR recruitment assistant. Compare the resume text with the job description.\<newline>\<newline>You MUST return your answer in a single, minified JSON object. Do not use markdown. The JSON object must have exactly two keys:\<newline>1. "score": a number from 1 to 10\<newline>2. "justification": a concise 2-3 sentence justification for the score\<newline>\<newline>Job Description:\<newline>---\<newline>''
     @ jd_text @
     ''\<newline>---\<newline>\<newline>Resume Text:\<newline>---\<newline>''
     @ resume_text @
     ''\<newline>---\<newline>\<newline>JSON Output:''\<close>

text \<open>Lines 184 to 194: the markdown fences are removed by three \<open>if\<close> statements, one
  after the other.\<close>

definition clean_response :: "string \<Rightarrow> string" where
  "clean_response text =
     (let response_text = strip text;
          response_text = (if startswith response_text ''```json''
                           then drop 7 response_text else response_text);
          response_text = (if startswith response_text ''```''
                           then drop 3 response_text else response_text);
          response_text = (if endswith response_text ''```''
                           then take (length response_text - 3) response_text
                           else response_text)
      in strip response_text)"

text \<open>Lines 180 to 198: what the \<open>try\<close> body does with \<open>response.text\<close>.\<close>

definition postprocess :: "env \<Rightarrow> string option \<Rightarrow> exn + json" where
  "postprocess env response_text =
     (case response_text of
        None \<Rightarrow> Inl (HTTPException 500 ''Empty response from Gemini API'')
      | Some text \<Rightarrow>
          if text = [] \<or> strip text = []
          then Inl (HTTPException 500 ''Empty response from Gemini API'')
          else json_loads env (clean_response text))"

text \<open>The body of the \<open>try\<close> statement: the API call, the two \<open>print\<close> calls that read
  \<open>response.text\<close>, then the post-processing.\<close>

definition get_analysis_try :: "env \<Rightarrow> nat \<Rightarrow> string \<Rightarrow> string \<Rightarrow> exn + json" where
  "get_analysis_try env i resume_text jd_text =
     (case generate_content env i (prompt resume_text jd_text) of
        Inl e \<Rightarrow> Inl e
      | Inr (Inl e) \<Rightarrow> Inl e
      | Inr (Inr response_text) \<Rightarrow> postprocess env response_text)"

text \<open>The clause \<open>except json.JSONDecodeError\<close>, lines 199 to 202. Before it raises, it
  prints \<open>response.text\<close>: when the API call itself raised, \<open>response\<close> is not bound and
  the \<open>print\<close> raises \<open>UnboundLocalError\<close>; when reading \<open>response.text\<close> raises, it
  raises again.\<close>

definition except_json_decode_error ::
  "env \<Rightarrow> nat \<Rightarrow> string \<Rightarrow> string \<Rightarrow> string \<Rightarrow> exn + json" where
  "except_json_decode_error env i resume_text jd_text m =
     (case generate_content env i (prompt resume_text jd_text) of
        Inl e \<Rightarrow> Inl (UnboundLocalError ''response'')
      | Inr (Inl e) \<Rightarrow> Inl e
      | Inr (Inr response_text) \<Rightarrow>
          Inl (HTTPException 500 (''Invalid JSON response from Gemini: '' @ m)))"

text \<open>The \<open>except\<close> clauses, in the order of the source: \<open>json.JSONDecodeError\<close> first, then
  every other \<open>Exception\<close>, the \<open>HTTPException\<close> of the \<open>try\<close> body among them.\<close>

definition get_analysis :: "env \<Rightarrow> nat \<Rightarrow> string \<Rightarrow> string \<Rightarrow> exn + json" where
  "get_analysis env i resume_text jd_text =
     (case get_analysis_try env i resume_text jd_text of
        Inr result \<Rightarrow> Inr result
      | Inl (JSONDecodeError m) \<Rightarrow> except_json_decode_error env i resume_text jd_text m
      | Inl e \<Rightarrow>
          Inl (HTTPException 500 (''Error analyzing resume: '' @ str_exn e)))"

subsection \<open>The table\<close>

text \<open>The SQLite driver binds \<open>None\<close>, \<open>int\<close> (and so \<open>bool\<close>), \<open>float\<close> and \<open>str\<close>. An
  \<open>int\<close> outside 64 bits, a \<open>list\<close> and a \<open>dict\<close> make it raise; a NaN is bound as
  \<open>NULL\<close>.\<close>

fun bind :: "json \<Rightarrow> cell option" where
  "bind JNull = Some SqlNull"
| "bind (JBool b) = Some (SqlInteger (if b then 1 else 0))"
| "bind (JInt n) =
     (if - 9223372036854775808 \<le> n \<and> n \<le> 9223372036854775807
      then Some (SqlInteger n) else None)"
| "bind (JFloat r) = Some (if is_nan r then SqlNull else SqlReal r)"
| "bind (JStr s) = Some (SqlText s)"
| "bind (JArr xs) = None"
| "bind (JObj items) = None"

text \<open>A column declared \<open>INTEGER\<close> turns a double into the integer it equals and a text
  into the number it spells, and keeps every other value.\<close>

fun integer_affinity :: "env \<Rightarrow> cell \<Rightarrow> cell" where
  "integer_affinity env (SqlReal r) =
     (case real_as_integer env r of Some n \<Rightarrow> SqlInteger n | None \<Rightarrow> SqlReal r)"
| "integer_affinity env (SqlText s) =
     (case text_as_number env s of Some c \<Rightarrow> c | None \<Rightarrow> SqlText s)"
| "integer_affinity env SqlNull = SqlNull"
| "integer_affinity env (SqlInteger n) = SqlInteger n"

text \<open>A column declared \<open>TEXT\<close> turns a number into its text form.\<close>

fun text_affinity :: "env \<Rightarrow> cell \<Rightarrow> cell" where
  "text_affinity env (SqlInteger n) = SqlText (str_int n)"
| "text_affinity env (SqlReal r) = SqlText (real_as_text env r)"
| "text_affinity env SqlNull = SqlNull"
| "text_affinity env (SqlText s) = SqlText s"

text \<open>What the columns \<open>score\<close> and \<open>justification\<close> keep of an object, or the exception of
  the driver.\<close>

definition cells :: "env \<Rightarrow> resume_analysis \<Rightarrow> exn + cell \<times> cell" where
  "cells env a =
     (case bind (ra_score a) of
        None \<Rightarrow> Inl (PyException (bind_error env (ra_score a)))
      | Some score \<Rightarrow>
         (case bind (ra_justification a) of
            None \<Rightarrow> Inl (PyException (bind_error env (ra_justification a)))
          | Some justification \<Rightarrow>
              Inr (integer_affinity env score, text_affinity env justification)))"

text \<open>SQLite gives a new row the largest \<open>id\<close> of the table plus one, 1 in an empty table,
  and a random unused one when the largest \<open>id\<close> of 64 bits is in use.\<close>

definition next_id :: "env \<Rightarrow> row list \<Rightarrow> int" where
  "next_id env rows =
     (case rows of
        [] \<Rightarrow> 1
      | r # rs \<Rightarrow>
          if fold max (map row_id rs) (row_id r) < 9223372036854775807
          then fold max (map row_id rs) (row_id r) + 1
          else random_rowid env (map row_id rows))"

definition new_row :: "env \<Rightarrow> nat \<Rightarrow> resume_analysis \<Rightarrow> cell \<times> cell \<Rightarrow> row list \<Rightarrow> row" where
  "new_row env now a c rows =
     \<lparr>row_id = next_id env rows,
      row_filename = ra_filename a,
      row_job_description = ra_job_description a,
      row_score = fst c,
      row_justification = snd c,
      row_created_at = now\<rparr>"

text \<open>The \<open>INSERT\<close> of one object, and of the pending objects in their order.\<close>

definition insert_row :: "env \<Rightarrow> nat \<Rightarrow> resume_analysis \<Rightarrow> row list \<Rightarrow> exn + row list" where
  "insert_row env now a rows =
     (case cells env a of
        Inl e \<Rightarrow> Inl e
      | Inr c \<Rightarrow> Inr (rows @ [new_row env now a c rows]))"

fun insert_all :: "env \<Rightarrow> nat \<Rightarrow> resume_analysis list \<Rightarrow> row list \<Rightarrow> exn + row list" where
  "insert_all env now [] rows = Inr rows"
| "insert_all env now (a # as) rows =
     (case insert_row env now a rows of
        Inl e \<Rightarrow> Inl e
      | Inr rows' \<Rightarrow> insert_all env now as rows')"

subsection \<open>The session\<close>

text \<open>What the handler does to the outside world is recorded in a trace: reading the
  content of the file at a position of the batch, calling the model for it, \<open>db.add\<close>,
  \<open>db.commit\<close>, \<open>db.rollback\<close> and \<open>db.close\<close>.\<close>

datatype event =
    FileRead nat
  | ModelCall nat
  | DbAdd nat
  | DbCommit nat
  | DbRollback
  | DbClose

text \<open>A database session: the rows of the table, the objects added and not yet
  committed, and the trace so far.\<close>

record session =
  committed :: "row list"
  pending :: "resume_analysis list"
  trace :: "event list"

definition db_add :: "nat \<Rightarrow> resume_analysis \<Rightarrow> session \<Rightarrow> session" where
  "db_add i a s = s\<lparr>pending := pending s @ [a], trace := trace s @ [DbAdd i]\<rparr>"

text \<open>\<open>db.commit()\<close> inserts the pending objects and commits. When an insert or the
  commit raises, the table is as before and the objects stay pending.\<close>

definition db_commit :: "env \<Rightarrow> nat \<Rightarrow> session \<Rightarrow> (exn + unit) \<times> session" where
  "db_commit env i s =
     (case insert_all env (utcnow env i) (pending s) (committed s) of
        Inl e \<Rightarrow> (Inl e, s\<lparr>trace := trace s @ [DbCommit i]\<rparr>)
      | Inr rows \<Rightarrow>
         (case commit_error env i (pending s) of
            Some m \<Rightarrow> (Inl (PyException m), s\<lparr>trace := trace s @ [DbCommit i]\<rparr>)
          | None \<Rightarrow>
              (Inr (),
               s\<lparr>committed := rows, pending := [], trace := trace s @ [DbCommit i]\<rparr>)))"

definition db_rollback :: "session \<Rightarrow> session" where
  "db_rollback s = s\<lparr>pending := [], trace := trace s @ [DbRollback]\<rparr>"

definition db_close :: "session \<Rightarrow> session" where
  "db_close s = s\<lparr>pending := [], trace := trace s @ [DbClose]\<rparr>"

subsection \<open>\<open>analyze_resumes\<close>\<close>

record result =
  res_filename :: string
  res_score :: json
  res_justification :: json

text \<open>A response: the results list with status 200, an \<open>HTTPException\<close> with its status
  and detail, or the answer of the framework to a request without a required field,
  status 422, with the names of the fields.\<close>

datatype response =
    Results "result list"
  | HTTPError nat string
  | Unprocessable "string list"

fun status :: "response \<Rightarrow> nat" where
  "status (Results rs) = 200"
| "status (HTTPError code detail) = code"
| "status (Unprocessable names) = 422"

definition allowed_extensions :: "string list" where
  "allowed_extensions = [''.pdf'', ''.docx'', ''.txt'']"

text \<open>Line 247: the validation compares the lower-cased file name.\<close>

definition allowed :: "upload_file \<Rightarrow> bool" where
  "allowed file = list_ex (\<lambda>ext. endswith (lower (filename file)) ext) allowed_extensions"

text \<open>The body of the \<open>for\<close> loop, lines 257 to 278, for the file at position \<open>i\<close>.\<close>

definition process_file ::
  "env \<Rightarrow> string \<Rightarrow> nat \<Rightarrow> upload_file \<Rightarrow> session \<Rightarrow> (exn + result) \<times> session" where
  "process_file env job_description i file s =
     (let s1 = s\<lparr>trace := trace s @ [FileRead i]\<rparr>;
          s2 = s1\<lparr>trace := trace s1 @ [ModelCall i]\<rparr>
      in case parse_resume_file env file of
           Inl e \<Rightarrow> (Inl e, s1)
         | Inr resume_text \<Rightarrow>
            (case get_analysis env i resume_text job_description of
               Inl e \<Rightarrow> (Inl e, s2)
             | Inr analysis \<Rightarrow>
                (case getitem analysis ''score'' of
                   Inl e \<Rightarrow> (Inl e, s2)
                 | Inr score \<Rightarrow>
                    (case getitem analysis ''justification'' of
                       Inl e \<Rightarrow> (Inl e, s2)
                     | Inr justification \<Rightarrow>
                        (case db_commit env i
                                (db_add i \<lparr>ra_filename = filename file,
                                           ra_job_description = job_description,
                                           ra_score = score,
                                           ra_justification = justification\<rparr> s2) of
                           (Inl e, s3) \<Rightarrow> (Inl e, s3)
                         | (Inr u, s3) \<Rightarrow>
                             (Inr \<lparr>res_filename = filename file,
                                   res_score = score,
                                   res_justification = justification\<rparr>, s3))))))"

text \<open>The \<open>for\<close> loop: the files in the order of the request; the first exception ends it.\<close>

fun process_files ::
  "env \<Rightarrow> string \<Rightarrow> nat \<Rightarrow> upload_file list \<Rightarrow> result list \<Rightarrow> session
     \<Rightarrow> (exn + result list) \<times> session" where
  "process_files env job_description i [] results s = (Inr results, s)"
| "process_files env job_description i (file # files) results s =
     (case process_file env job_description i file s of
        (Inl e, s') \<Rightarrow> (Inl e, s')
      | (Inr r, s') \<Rightarrow> process_files env job_description (Suc i) files (results @ [r]) s')"

text \<open>The body of the handler of \<open>POST /analyze\<close>. It returns the response, the table
  and the trace; a request that fails validation opens no session.\<close>

definition analyze_resumes ::
  "env \<Rightarrow> string \<Rightarrow> upload_file list \<Rightarrow> row list \<Rightarrow> response \<times> row list \<times> event list" where
  "analyze_resumes env job_description files db =
     (if files = [] then (HTTPError 400 ''No files uploaded'', db, [])
      else if length files > 10 then (HTTPError 400 ''Maximum 10 files allowed'', db, [])
      else case find (\<lambda>file. \<not> allowed file) files of
        Some file \<Rightarrow> (HTTPError 400 (''Unsupported file type: '' @ filename file), db, [])
      | None \<Rightarrow>
          (case process_files env job_description 0 files []
                  \<lparr>committed = db, pending = [], trace = []\<rparr> of
             (Inr results, s) \<Rightarrow>
               (Results results, committed (db_close s), trace (db_close s))
           | (Inl e, s) \<Rightarrow>
               (HTTPError 500 (''Error processing files: '' @ str_exn e),
                committed (db_close (db_rollback s)), trace (db_close (db_rollback s)))))"

text \<open>The handler of \<open>GET /\<close> does not touch the table.\<close>

definition root :: "row list \<Rightarrow> string \<times> row list" where
  "root db = (''Smart Resume Screener API is running'', db)"

subsection \<open>The endpoint\<close>

text \<open>The parameters of the handler are declared \<open>Form(...)\<close> and \<open>File(...)\<close>: both are
  required. The framework answers a request in which \<open>job_description\<close> is absent or
  empty, or which has no part \<open>files\<close>, with status 422 and does not run the body.\<close>

record request =
  form_job_description :: "string option"
  form_files :: "upload_file list"

definition missing_fields :: "request \<Rightarrow> string list" where
  "missing_fields req =
     (if form_job_description req = None \<or> form_job_description req = Some []
      then [''job_description''] else [])
     @ (if form_files req = [] then [''files''] else [])"

definition post_analyze ::
  "env \<Rightarrow> request \<Rightarrow> row list \<Rightarrow> response \<times> row list \<times> event list" where
  "post_analyze env req db =
     (case form_job_description req of
        None \<Rightarrow> (Unprocessable (missing_fields req), db, [])
      | Some job_description \<Rightarrow>
          if missing_fields req \<noteq> [] then (Unprocessable (missing_fields req), db, [])
          else analyze_resumes env job_description (form_files req) db)"

subsection \<open>The outcome of one file, without the session\<close>

text \<open>What extraction, scoring and the two key lookups give for the file at position \<open>i\<close>:
  the exception raised, or the values under \<open>score\<close> and \<open>justification\<close>.\<close>

definition scored :: "env \<Rightarrow> string \<Rightarrow> nat \<Rightarrow> upload_file \<Rightarrow> exn + json \<times> json" where
  "scored env job_description i file =
     (case parse_resume_file env file of
        Inl e \<Rightarrow> Inl e
      | Inr resume_text \<Rightarrow>
         (case get_analysis env i resume_text job_description of
            Inl e \<Rightarrow> Inl e
          | Inr analysis \<Rightarrow>
             (case getitem analysis ''score'' of
                Inl e \<Rightarrow> Inl e
              | Inr score \<Rightarrow>
                 (case getitem analysis ''justification'' of
                    Inl e \<Rightarrow> Inl e
                  | Inr justification \<Rightarrow> Inr (score, justification)))))"

definition db_analysis_of :: "upload_file \<Rightarrow> string \<Rightarrow> json \<times> json \<Rightarrow> resume_analysis" where
  "db_analysis_of file job_description v =
     \<lparr>ra_filename = filename file, ra_job_description = job_description,
      ra_score = fst v, ra_justification = snd v\<rparr>"

text \<open>The same with the store: \<open>Inl\<close> when extraction, scoring, a key lookup, the insert
  or the commit of the file raises, \<open>Inr\<close> when the file is processed to the end.\<close>

definition outcome :: "env \<Rightarrow> string \<Rightarrow> nat \<Rightarrow> upload_file \<Rightarrow> exn + json \<times> json" where
  "outcome env job_description i file =
     (case scored env job_description i file of
        Inl e \<Rightarrow> Inl e
      | Inr v \<Rightarrow>
         (case cells env (db_analysis_of file job_description v) of
            Inl e \<Rightarrow> Inl e
          | Inr c \<Rightarrow>
             (case commit_error env i [db_analysis_of file job_description v] of
                Some m \<Rightarrow> Inl (PyException m)
              | None \<Rightarrow> Inr v)))"

text \<open>The trace of a file that is processed to the end.\<close>

definition file_events :: "nat \<Rightarrow> event list" where
  "file_events i = [FileRead i, ModelCall i, DbAdd i, DbCommit i]"

text \<open>The entry of the results list and the row that belong to a file and its values: the
  row has the file's name and the job description, and in its columns \<open>score\<close> and
  \<open>justification\<close> what the table keeps of the two values.\<close>

definition result_of :: "upload_file \<Rightarrow> json \<times> json \<Rightarrow> result" where
  "result_of file v =
     \<lparr>res_filename = filename file, res_score = fst v, res_justification = snd v\<rparr>"

definition row_matches ::
  "env \<Rightarrow> string \<Rightarrow> nat \<Rightarrow> upload_file \<Rightarrow> json \<times> json \<Rightarrow> row \<Rightarrow> bool" where
  "row_matches env job_description i file v r =
     (row_filename r = filename file \<and> row_job_description r = job_description \<and>
      cells env (db_analysis_of file job_description v)
        = Inr (row_score r, row_justification r) \<and>
      row_created_at r = utcnow env i)"

definition file_done ::
  "env \<Rightarrow> string \<Rightarrow> nat \<Rightarrow> upload_file \<Rightarrow> result \<Rightarrow> row \<Rightarrow> bool" where
  "file_done env job_description i file r w =
     (\<exists>v. outcome env job_description i file = Inr v \<and> r = result_of file v
          \<and> row_matches env job_description i file v w)"

text \<open>A batch that passes the three checks of lines 237 to 248.\<close>

definition valid_batch :: "upload_file list \<Rightarrow> bool" where
  "valid_batch files =
     (files \<noteq> [] \<and> length files \<le> 10 \<and> (\<forall>file\<in>set files. allowed file))"

text \<open>A JSON value that is an object with the given key.\<close>

definition has_key :: "json \<Rightarrow> string \<Rightarrow> bool" where
  "has_key a k = (case a of JObj items \<Rightarrow> k \<in> set (map fst items) | _ \<Rightarrow> False)"


subsection \<open>The post-processing as the specification words it\<close>

text \<open>Trim; fail on an empty response; strip a leading 7-character marker, else a leading
  3-character marker; strip a trailing 3-character marker; trim; parse.\<close>

definition spec_postprocess :: "(string \<Rightarrow> exn + json) \<Rightarrow> string \<Rightarrow> exn + json" where
  "spec_postprocess parse text =
     (let t = strip text in
      if t = [] then Inl (HTTPException 500 ''Empty response from Gemini API'')
      else
        let t = (if startswith t ''```json'' then drop 7 t
                 else if startswith t ''```'' then drop 3 t
                 else t);
            t = (if endswith t ''```'' then take (length t - 3) t else t)
        in parse (strip t))"

subsection \<open>A test double of the environment\<close>

text \<open>The model answers the file at position \<open>i\<close> with the \<open>i\<close>-th reply of a list: the
  exception of the API call, or the text of the response. The parser knows a few
  documents, rejects a text of a thousand or more opening brackets with the
  \<open>RecursionError\<close> of \<open>json.loads\<close>, and every other text with a \<open>JSONDecodeError\<close>. Text
  files are ASCII; PDF and DOCX files are broken. The table turns the texts \<open>8\<close> and \<open>7.0\<close>
  in an \<open>INTEGER\<close> column into 8 and 7 and keeps the other texts; no reply of the double
  has a \<open>float\<close>. The commit itself always succeeds.\<close>

definition test_json_loads :: "string \<Rightarrow> exn + json" where
  \<open>test_json_loads s =
     (if s = ''{"score":8,"justification":"good"}''
      then Inr (JObj [(''score'', JInt 8), (''justification'', JStr ''good'')])
      else if s = ''{"score":5,"justification":"fair"}''
      then Inr (JObj [(''score'', JInt 5), (''justification'', JStr ''fair'')])
      else if s = ''{"score":"high","justification":null}''
      then Inr (JObj [(''score'', JStr ''high''), (''justification'', JNull)])
      else if s = ''{"score":"8","justification":5}''
      then Inr (JObj [(''score'', JStr ''8''), (''justification'', JInt 5)])
      else if s = ''{"score":[9],"justification":"good"}''
      then Inr (JObj [(''score'', JArr [JInt 9]), (''justification'', JStr ''good'')])
      else if s = ''{"rating":3}'' then Inr (JObj [(''rating'', JInt 3)])
      else if s = ''1'' then Inr (JInt 1)
      else if 1000 \<le> length s \<and> list_all (\<lambda>c. c = CHR ''['') s
      then Inl (PyException
             ''maximum recursion depth exceeded while decoding a JSON array from a unicode string'')
      else Inl (JSONDecodeError ''Expecting value: line 1 column 1 (char 0)''))\<close>

definition test_env :: "(exn + string option) list \<Rightarrow> env" where
  "test_env replies =
     \<lparr>pdf_pages = (\<lambda>b. Inl (PyException ''EOF marker not found'')),
      docx_paragraphs = (\<lambda>b. Inl (PyException ''File is not a zip file'')),
      decode_utf8 =
        (\<lambda>b. if list_all (\<lambda>w. w < 128) b then Inr (map (\<lambda>w. char_of (unat w)) b)
             else Inl (PyException ''the test double decodes ASCII only'')),
      generate_content =
        (\<lambda>i p. if i < length replies
                then (case replies ! i of Inl e \<Rightarrow> Inl e | Inr t \<Rightarrow> Inr (Inr t))
                else Inl (PyException ''no reply'')),
      json_loads = test_json_loads,
      bind_error = (\<lambda>v. ''Error binding parameter: type is not supported''),
      real_as_integer = (\<lambda>r. None),
      text_as_number =
        (\<lambda>s. if s = ''8'' then Some (SqlInteger 8)
             else if s = ''7.0'' then Some (SqlInteger 7) else None),
      real_as_text = (\<lambda>r. ''''),
      commit_error = (\<lambda>i p. None),
      random_rowid = (\<lambda>ids. 1),
      utcnow = (\<lambda>i. 1000 + i)\<rparr>"

definition txt_file :: "string \<Rightarrow> upload_file" where
  "txt_file name = \<lparr>filename = name, content = [104, 105]\<rparr>"

section \<open>The loop\<close>

lemma process_file_ok:
  assumes "outcome env jd i f = Inr v" and "pending s = []"
  shows "\<exists>c. cells env (db_analysis_of f jd v) = Inr c \<and>
           process_file env jd i f s =
           (Inr (result_of f v),
            s\<lparr>committed :=
                committed s @ [new_row env (utcnow env i) (db_analysis_of f jd v) c (committed s)],
              pending := [],
              trace := trace s @ file_events i\<rparr>)"
  using assms
  by (auto simp: outcome_def scored_def process_file_def db_commit_def db_add_def Let_def
        db_analysis_of_def result_of_def file_events_def insert_row_def
      split: sum.splits option.splits)

lemma process_file_fail:
  assumes "outcome env jd i f = Inl e" and "pending s = []"
  shows "fst (process_file env jd i f s) = Inl e"
    and "committed (snd (process_file env jd i f s)) = committed s"
    and "\<exists>t. trace (snd (process_file env jd i f s)) = trace s @ FileRead i # t
           \<and> set t \<subseteq> {ModelCall i, DbAdd i, DbCommit i}
           \<and> ((\<exists>e'. scored env jd i f = Inl e') \<longrightarrow> set t \<subseteq> {ModelCall i})"
  using assms
  by (auto simp: outcome_def scored_def process_file_def db_commit_def db_add_def Let_def
        db_analysis_of_def insert_row_def
      split: sum.splits option.splits)

lemma process_files_append:
  "process_files env jd i (xs @ ys) results s =
     (case process_files env jd i xs results s of
        (Inl e, s') \<Rightarrow> (Inl e, s')
      | (Inr rs, s') \<Rightarrow> process_files env jd (i + length xs) ys rs s')"
  by (induction xs arbitrary: i results s) (auto split: prod.splits sum.splits)


lemma process_files_ok:
  assumes "\<forall>j<length files. \<exists>v. outcome env jd (i + j) (files ! j) = Inr v"
    and "pending s = []"
  shows "\<exists>rs new. process_files env jd i files results s =
            (Inr (results @ rs),
             s\<lparr>committed := committed s @ new, pending := [],
               trace := trace s @ concat (map file_events [i..<i + length files])\<rparr>)
          \<and> length rs = length files \<and> length new = length files
          \<and> (\<forall>j<length files. file_done env jd (i + j) (files ! j) (rs ! j) (new ! j))"
  using assms
proof (induction files arbitrary: i results s)
  case Nil
  then show ?case by simp
next
  case (Cons f fs)
  from Cons.prems(1) obtain v where v: "outcome env jd i f = Inr v"
    by force
  from process_file_ok [OF v Cons.prems(2)] obtain c where
    c: "cells env (db_analysis_of f jd v) = Inr c"
    and step0: "process_file env jd i f s =
           (Inr (result_of f v),
            s\<lparr>committed :=
                committed s @ [new_row env (utcnow env i) (db_analysis_of f jd v) c (committed s)],
              pending := [],
              trace := trace s @ file_events i\<rparr>)"
    by blast
  define w where "w = new_row env (utcnow env i) (db_analysis_of f jd v) c (committed s)"
  define s' where "s' = s\<lparr>committed := committed s @ [w], pending := [],
              trace := trace s @ file_events i\<rparr>"
  have step: "process_file env jd i f s = (Inr (result_of f v), s')"
    using step0 by (simp add: s'_def w_def)
  have done0: "file_done env jd i f (result_of f v) w"
    using v c by (simp add: file_done_def row_matches_def w_def new_row_def db_analysis_of_def)
  have rest: "\<forall>j<length fs. \<exists>v. outcome env jd (Suc i + j) (fs ! j) = Inr v"
  proof (intro allI impI)
    fix j assume "j < length fs"
    then have "Suc j < length (f # fs)" by simp
    with Cons.prems(1) have "\<exists>v. outcome env jd (i + Suc j) ((f # fs) ! Suc j) = Inr v"
      by blast
    then show "\<exists>v. outcome env jd (Suc i + j) (fs ! j) = Inr v" by simp
  qed
  have p': "pending s' = []" by (simp add: s'_def)
  from Cons.IH [OF rest p', of "results @ [result_of f v]"]
  obtain rs new where run: "process_files env jd (Suc i) fs (results @ [result_of f v]) s' =
            (Inr ((results @ [result_of f v]) @ rs),
             s'\<lparr>committed := committed s' @ new, pending := [],
               trace := trace s' @ concat (map file_events [Suc i..<Suc i + length fs])\<rparr>)"
    and len: "length rs = length fs" "length new = length fs"
    and all: "\<forall>j<length fs. file_done env jd (Suc i + j) (fs ! j) (rs ! j) (new ! j)"
    by blast
  have tr: "[i..<i + length (f # fs)] = i # [Suc i..<Suc i + length fs]"
    by (simp add: upt_rec)
  have "process_files env jd i (f # fs) results s =
            (Inr (results @ (result_of f v # rs)),
             s\<lparr>committed := committed s @ (w # new), pending := [],
               trace := trace s @ concat (map file_events [i..<i + length (f # fs)])\<rparr>)"
    using step run unfolding tr by (simp add: s'_def)
  moreover have "length (result_of f v # rs) = length (f # fs)" "length (w # new) = length (f # fs)"
    using len by simp_all
  moreover have "\<forall>j<length (f # fs). file_done env jd (i + j) ((f # fs) ! j) ((result_of f v # rs) ! j) ((w # new) ! j)"
  proof (intro allI impI)
    fix j assume j: "j < length (f # fs)"
    show "file_done env jd (i + j) ((f # fs) ! j) ((result_of f v # rs) ! j) ((w # new) ! j)"
    proof (cases j)
      case 0
      then show ?thesis using done0 by simp
    next
      case (Suc j')
      then have "j' < length fs" using j by simp
      with all have "file_done env jd (Suc i + j') (fs ! j') (rs ! j') (new ! j')" by blast
      then show ?thesis using Suc by simp
    qed
  qed
  ultimately show ?case by blast
qed


lemma process_files_abort:
  assumes k: "k < length files"
    and ok: "\<forall>j<k. \<exists>v. outcome env jd (i + j) (files ! j) = Inr v"
    and fail: "outcome env jd (i + k) (files ! k) = Inl e"
    and p: "pending s = []"
  shows "\<exists>new t s'. process_files env jd i files results s = (Inl e, s')
          \<and> committed s' = committed s @ new \<and> length new = k
          \<and> (\<forall>j<k. \<exists>r. file_done env jd (i + j) (files ! j) r (new ! j))
          \<and> trace s' = trace s @ concat (map file_events [i..<i + k]) @ FileRead (i + k) # t
          \<and> set t \<subseteq> {ModelCall (i + k), DbAdd (i + k), DbCommit (i + k)}
          \<and> ((\<exists>e'. scored env jd (i + k) (files ! k) = Inl e') \<longrightarrow> set t \<subseteq> {ModelCall (i + k)})"
proof -
  define pre where "pre = take k files"
  define post where "post = drop (Suc k) files"
  have split: "files = pre @ files ! k # post"
    using k by (simp add: pre_def post_def id_take_nth_drop)
  have lpre: "length pre = k" using k by (simp add: pre_def)
  have okpre: "\<forall>j<length pre. \<exists>v. outcome env jd (i + j) (pre ! j) = Inr v"
    using ok lpre by (simp add: pre_def)
  from process_files_ok [OF okpre p, of results]
  obtain rs new where run: "process_files env jd i pre results s =
            (Inr (results @ rs),
             s\<lparr>committed := committed s @ new, pending := [],
               trace := trace s @ concat (map file_events [i..<i + length pre])\<rparr>)"
    and len: "length rs = length pre" "length new = length pre"
    and all: "\<forall>j<length pre. file_done env jd (i + j) (pre ! j) (rs ! j) (new ! j)"
    by blast
  define s1 where "s1 = s\<lparr>committed := committed s @ new, pending := [],
               trace := trace s @ concat (map file_events [i..<i + k])\<rparr>"
  have p1: "pending s1 = []" by (simp add: s1_def)
  define s2 where "s2 = snd (process_file env jd (i + k) (files ! k) s1)"
  have f1: "process_file env jd (i + k) (files ! k) s1 = (Inl e, s2)"
    using process_file_fail(1) [OF fail p1] by (simp add: s2_def prod_eq_iff)
  from process_file_fail(3) [OF fail p1] obtain t where
    t: "trace s2 = trace s1 @ FileRead (i + k) # t"
       "set t \<subseteq> {ModelCall (i + k), DbAdd (i + k), DbCommit (i + k)}"
       "(\<exists>e'. scored env jd (i + k) (files ! k) = Inl e') \<longrightarrow> set t \<subseteq> {ModelCall (i + k)}"
    unfolding s2_def by blast
  have c2: "committed s2 = committed s1"
    using process_file_fail(2) [OF fail p1] by (simp add: s2_def)
  have "process_files env jd i files results s = (Inl e, s2)"
    by (subst split) (simp add: process_files_append run lpre s1_def [symmetric] f1)
  moreover have "committed s2 = committed s @ new" using c2 by (simp add: s1_def)
  moreover have "length new = k" using len lpre by simp
  moreover have "\<forall>j<k. \<exists>r. file_done env jd (i + j) (files ! j) r (new ! j)"
  proof (intro allI impI)
    fix j assume j: "j < k"
    then have "file_done env jd (i + j) (pre ! j) (rs ! j) (new ! j)"
      using all lpre by simp
    moreover have "pre ! j = files ! j" using j by (simp add: pre_def)
    ultimately show "\<exists>r. file_done env jd (i + j) (files ! j) r (new ! j)" by auto
  qed
  moreover have "trace s2 = trace s @ concat (map file_events [i..<i + k]) @ FileRead (i + k) # t"
    using t(1) by (simp add: s1_def)
  ultimately show ?thesis using t(2,3) by blast
qed

lemma analyze_valid:
  assumes "valid_batch files"
  shows "analyze_resumes env jd files db =
          (case process_files env jd 0 files [] \<lparr>committed = db, pending = [], trace = []\<rparr> of
             (Inr results, s) \<Rightarrow>
               (Results results, committed (db_close s), trace (db_close s))
           | (Inl e, s) \<Rightarrow>
               (HTTPError 500 (''Error processing files: '' @ str_exn e),
                committed (db_close (db_rollback s)), trace (db_close (db_rollback s))))"
proof -
  have "find (\<lambda>file. \<not> allowed file) files = None"
    using assms by (auto simp: valid_batch_def find_None_iff)
  then show ?thesis using assms by (simp add: analyze_resumes_def valid_batch_def)
qed

lemma analyze_ok:
  assumes v: "valid_batch files"
    and ok: "\<forall>j<length files. \<exists>v. outcome env jd j (files ! j) = Inr v"
  shows "\<exists>rs new. analyze_resumes env jd files db =
            (Results rs, db @ new, concat (map file_events [0..<length files]) @ [DbClose])
          \<and> length rs = length files \<and> length new = length files
          \<and> (\<forall>j<length files. file_done env jd j (files ! j) (rs ! j) (new ! j))"
proof -
  have ok': "\<forall>j<length files. \<exists>v. outcome env jd (0 + j) (files ! j) = Inr v"
    using ok by simp
  have p: "pending \<lparr>committed = db, pending = [], trace = []\<rparr> = []" by simp
  from process_files_ok [OF ok' p, of "[]"] obtain rs new where
    run: "process_files env jd 0 files [] \<lparr>committed = db, pending = [], trace = []\<rparr> =
            (Inr rs, \<lparr>committed = db @ new, pending = [],
               trace = concat (map file_events [0..<length files])\<rparr>)"
    and rest: "length rs = length files" "length new = length files"
      "\<forall>j<length files. file_done env jd (0 + j) (files ! j) (rs ! j) (new ! j)"
    by auto
  have "analyze_resumes env jd files db =
            (Results rs, db @ new, concat (map file_events [0..<length files]) @ [DbClose])"
    by (simp add: analyze_valid [OF v] run db_close_def)
  then show ?thesis using rest by auto
qed

lemma analyze_abort:
  assumes v: "valid_batch files"
    and k: "k < length files"
    and ok: "\<forall>j<k. \<exists>v. outcome env jd j (files ! j) = Inr v"
    and fail: "outcome env jd k (files ! k) = Inl e"
  shows "\<exists>new t. analyze_resumes env jd files db =
            (HTTPError 500 (''Error processing files: '' @ str_exn e), db @ new,
             concat (map file_events [0..<k]) @ FileRead k # t @ [DbRollback, DbClose])
          \<and> length new = k
          \<and> (\<forall>j<k. \<exists>r. file_done env jd j (files ! j) r (new ! j))
          \<and> set t \<subseteq> {ModelCall k, DbAdd k, DbCommit k}
          \<and> ((\<exists>e'. scored env jd k (files ! k) = Inl e') \<longrightarrow> set t \<subseteq> {ModelCall k})"
proof -
  have ok': "\<forall>j<k. \<exists>v. outcome env jd (0 + j) (files ! j) = Inr v"
    using ok by simp
  have fail': "outcome env jd (0 + k) (files ! k) = Inl e" using fail by simp
  have p: "pending \<lparr>committed = db, pending = [], trace = []\<rparr> = []" by simp
  from process_files_abort [OF k ok' fail' p, of "[]"] obtain new t s' where
    run: "process_files env jd 0 files [] \<lparr>committed = db, pending = [], trace = []\<rparr> = (Inl e, s')"
    and c: "committed s' = db @ new" and l: "length new = k"
    and d: "\<forall>j<k. \<exists>r. file_done env jd (0 + j) (files ! j) r (new ! j)"
    and tr: "trace s' = concat (map file_events [0..<k]) @ FileRead k # t"
    and t: "set t \<subseteq> {ModelCall k, DbAdd k, DbCommit k}"
      "(\<exists>e'. scored env jd k (files ! k) = Inl e') \<longrightarrow> set t \<subseteq> {ModelCall k}"
    by auto
  have "analyze_resumes env jd files db =
            (HTTPError 500 (''Error processing files: '' @ str_exn e), db @ new,
             concat (map file_events [0..<k]) @ FileRead k # t @ [DbRollback, DbClose])"
    by (simp add: analyze_valid [OF v] run db_close_def db_rollback_def c tr)
  then show ?thesis using l d t by auto
qed

lemma analyze_invalid:
  assumes "\<not> valid_batch files"
  shows "\<exists>d. analyze_resumes env jd files db = (HTTPError 400 d, db, [])"
proof -
  consider "files = []" | "files \<noteq> []" "10 < length files"
    | "files \<noteq> []" "length files \<le> 10" "\<exists>file\<in>set files. \<not> allowed file"
    using assms unfolding valid_batch_def by fastforce
  then show ?thesis
  proof cases
    case 1
    then show ?thesis by (simp add: analyze_resumes_def)
  next
    case 2
    then show ?thesis by (simp add: analyze_resumes_def)
  next
    case 3
    then obtain bad where "find (\<lambda>file. \<not> allowed file) files = Some bad"
      by (cases "find (\<lambda>file. \<not> allowed file) files") (auto simp: find_None_iff)
    with 3 show ?thesis by (simp add: analyze_resumes_def)
  qed
qed

text \<open>Either every file of the batch is processed to the end, or there is a first file
  that is not.\<close>

lemma first_failure:
  "(\<forall>j<n. \<exists>v. outcome env jd j (files ! j) = Inr v)
   \<or> (\<exists>k e. k < n \<and> (\<forall>j<k. \<exists>v. outcome env jd j (files ! j) = Inr v)
          \<and> outcome env jd k (files ! k) = Inl e)"
proof (cases "\<forall>j<n. \<exists>v. outcome env jd j (files ! j) = Inr v")
  case True
  then show ?thesis by blast
next
  case False
  define bad where "bad j = (j < n \<and> (\<exists>e. outcome env jd j (files ! j) = Inl e))" for j
  from False obtain j where "j < n" "\<not> (\<exists>v. outcome env jd j (files ! j) = Inr v)" by blast
  then have "bad j" unfolding bad_def by (cases "outcome env jd j (files ! j)") auto
  define k where "k = (LEAST j. bad j)"
  have bk: "bad k" unfolding k_def using \<open>bad j\<close> by (rule LeastI)
  have least: "\<And>i. i < k \<Longrightarrow> \<not> bad i" unfolding k_def by (rule not_less_Least)
  have "\<forall>i<k. \<exists>v. outcome env jd i (files ! i) = Inr v"
  proof (intro allI impI)
    fix i assume "i < k"
    then have "\<not> bad i" by (rule least)
    moreover have "i < n" using \<open>i < k\<close> bk unfolding bad_def by simp
    ultimately show "\<exists>v. outcome env jd i (files ! i) = Inr v"
      unfolding bad_def by (cases "outcome env jd i (files ! i)") auto
  qed
  then show ?thesis using bk unfolding bad_def by blast
qed

lemma events_below:
  "ev \<in> set (concat (map file_events [0..<k])) \<Longrightarrow>
     \<exists>j<k. ev \<in> {FileRead j, ModelCall j, DbAdd j, DbCommit j}"
  by (auto simp: file_events_def)

lemma has_key_getitem: "has_key a k \<longleftrightarrow> (\<exists>v. getitem a k = Inr v)"
proof (cases a)
  case (JObj items)
  have "k \<in> fst ` set items \<longleftrightarrow> map_of items k \<noteq> None"
    by (simp add: map_of_eq_None_iff)
  then show ?thesis using JObj by (auto simp: has_key_def split: option.splits)
qed (simp_all add: has_key_def)

lemma startswith_append:
  "startswith t (p @ q) \<longleftrightarrow> startswith t p \<and> startswith (drop (length p) t) q"
proof
  assume a: "startswith t (p @ q)"
  then have eq: "take (length p) t @ take (length q) (drop (length p) t) = p @ q"
    by (simp add: startswith_def take_add)
  from a have "length (take (length p + length q) t) = length p + length q"
    by (simp add: startswith_def)
  then have "length p + length q \<le> length t" by simp
  then have "length (take (length p) t) = length p" by simp
  with eq show "startswith t p \<and> startswith (drop (length p) t) q"
    by (simp add: startswith_def)
next
  assume "startswith t p \<and> startswith (drop (length p) t) q"
  then show "startswith t (p @ q)" by (simp add: startswith_def take_add)
qed

lemma double_fence:
  "startswith t ''```json```'' \<longleftrightarrow>
     startswith t ''```json'' \<and> startswith (drop 7 t) ''```''"
proof -
  have l: "length ''```json'' = 7" by simp
  have e: "''```json'' @ ''```'' = ''```json```''" by simp
  show ?thesis
    using startswith_append [of t "''```json''" "''```''"] unfolding l e .
qed

lemma strip_Nil: "strip [] = []"
  by (simp add: strip_def)

lemma str_nat_400: "str_nat 400 = ''400''"
  by code_simp

lemma str_nat_500: "str_nat 500 = ''500''"
  by code_simp

section \<open>The claims\<close>

text \<open>
  Claim C2 says that an unsupported file type is always found before any file is processed
  and answered with status 400, also for a name that does not end in exactly lower-case
  \<open>.pdf\<close>, \<open>.docx\<close> or \<open>.txt\<close>. The code does not do that: the validation lower-cases the
  name, so \<open>resume.PDF\<close> passes; \<open>parse_resume_file\<close> then reads the file, rejects the
  name with an \<open>HTTPException\<close> of status 400, and the \<open>except Exception\<close> clause of the
  handler turns it into status 500.
\<close>

theorem uppercase_extension_gives_500:
  "analyze_resumes env job_description [\<lparr>filename = ''resume.PDF'', content = c\<rparr>] db =
     (HTTPError 500 ''Error processing files: 400: Unsupported file type: resume.PDF'',
      db, [FileRead 0, DbRollback, DbClose])"
proof -
  have a: "allowed \<lparr>filename = ''resume.PDF'', content = c\<rparr>"
    by code_simp
  have p: "parse_resume_file env \<lparr>filename = ''resume.PDF'', content = c\<rparr> =
             Inl (HTTPException 400 ''Unsupported file type: resume.PDF'')"
    by (simp add: parse_resume_file_def endswith_def)
  show ?thesis
    by (simp add: analyze_resumes_def a process_file_def p db_rollback_def db_close_def
          str_nat_400 del: str_nat.simps)
qed

text \<open>
  Claim C7 says that an absent, empty or blank model response makes the scoring client
  fail with the \<open>EmptyResponse\<close> error, distinct from the \<open>ScoringFailed\<close> error of other
  API failures. The code raises \<open>Empty response from Gemini API\<close> inside the \<open>try\<close> body,
  where the clause \<open>except Exception\<close> catches it: what leaves \<open>get_analysis\<close> is the
  \<open>Error analyzing resume\<close> error of every other failure, with the first one printed into
  its detail.
\<close>

theorem empty_response_is_wrapped:
  "get_analysis (env\<lparr>generate_content := \<lambda>i p. Inr (Inr None)\<rparr>) i resume_text jd_text
     = Inl (HTTPException 500 ''Error analyzing resume: 500: Empty response from Gemini API'')
   \<and> get_analysis (env\<lparr>generate_content := \<lambda>i p. Inr (Inr (Some ''''))\<rparr>) i resume_text jd_text
     = Inl (HTTPException 500 ''Error analyzing resume: 500: Empty response from Gemini API'')
   \<and> get_analysis (env\<lparr>generate_content := \<lambda>i p. Inr (Inr (Some ''  \<newline>''))\<rparr>) i resume_text jd_text
     = Inl (HTTPException 500 ''Error analyzing resume: 500: Empty response from Gemini API'')"
  by (simp add: get_analysis_def get_analysis_try_def postprocess_def strip_def isspace_def
        str_nat_500 del: str_nat.simps)

text \<open>
  Claim C3 says that the post-processing of the model response is: trim; fail on an empty
  response; strip a leading \<open>```json\<close>, else a leading \<open>```\<close>; strip a trailing \<open>```\<close>;
  trim; parse. The code tests the two leading markers with two separate \<open>if\<close> statements,
  not with \<open>if\<close> and \<open>elif\<close>, so a response that starts with \<open>```json```\<close> loses ten
  characters where the claim's algorithm removes seven. On the response \<open>```json```1\<close> the
  code parses \<open>1\<close> and the claim's algorithm parses \<open>```1\<close>.
\<close>

theorem postprocess_counterexample:
  \<open>postprocess (test_env []) (Some ''```json```1'') = Inr (JInt 1) \<and>
   spec_postprocess (json_loads (test_env [])) ''```json```1''
     = Inl (JSONDecodeError ''Expecting value: line 1 column 1 (char 0)'') \<and>
   postprocess (test_env []) (Some ''```json```1'')
     \<noteq> spec_postprocess (json_loads (test_env [])) ''```json```1''\<close>
  by (simp add: postprocess_def spec_postprocess_def clean_response_def test_env_def
        test_json_loads_def strip_def isspace_def startswith_def endswith_def)

text \<open>
  Claim C3 as amended: the post-processing of the code equals the algorithm of the claim on
  every response that, once trimmed, does not start with \<open>```json```\<close>; on a response that
  does, the code strips both leading markers, ten characters, before it strips the
  trailing marker, trims and parses.
\<close>

theorem postprocess_double_fence:
  "postprocess env (Some text) =
     (if startswith (strip text) ''```json```''
      then json_loads env
             (let t = drop 10 (strip text);
                  t = (if endswith t ''```'' then take (length t - 3) t else t)
              in strip t)
      else spec_postprocess (json_loads env) text)"
proof (cases "strip text = []")
  case True
  then show ?thesis
    by (simp add: postprocess_def spec_postprocess_def startswith_def)
next
  case False
  then have ne: "text \<noteq> []" using strip_Nil by auto
  show ?thesis
  proof (cases "startswith (strip text) ''```json''")
    case A: True
    show ?thesis
    proof (cases "startswith (drop 7 (strip text)) ''```''")
      case True
      with A False ne show ?thesis
        by (simp add: postprocess_def clean_response_def Let_def double_fence)
    next
      case B: False
      with A False ne show ?thesis
        by (simp add: postprocess_def spec_postprocess_def clean_response_def Let_def
              double_fence)
    qed
  next
    case nA: False
    with False ne show ?thesis
      by (simp add: postprocess_def spec_postprocess_def clean_response_def Let_def
            double_fence)
  qed
qed

subsection \<open>Facts shared by the claims about a batch\<close>

lemma outcome_Inr_scored: "outcome env jd i f = Inr v \<Longrightarrow> scored env jd i f = Inr v"
  by (auto simp: outcome_def split: sum.splits option.splits)

lemma scored_Inl_outcome: "scored env jd i f = Inl e \<Longrightarrow> outcome env jd i f = Inl e"
  by (simp add: outcome_def)

lemma get_analysis_parsed:
  assumes "generate_content env i (prompt resume_text jd) = Inr (Inr (Some text))"
    and "strip text \<noteq> []"
  shows "get_analysis env i resume_text jd =
           (case json_loads env (clean_response text) of
              Inr result \<Rightarrow> Inr result
            | Inl (JSONDecodeError m) \<Rightarrow>
                Inl (HTTPException 500 (''Invalid JSON response from Gemini: '' @ m))
            | Inl e \<Rightarrow> Inl (HTTPException 500 (''Error analyzing resume: '' @ str_exn e)))"
proof -
  have "text \<noteq> []" using assms(2) strip_Nil by auto
  then show ?thesis using assms
    by (simp add: get_analysis_def get_analysis_try_def postprocess_def
          except_json_decode_error_def del: str_exn.simps split: sum.splits exn.splits)
qed

text \<open>
  Claim C1: for a batch that passes validation, if the processing of the file at position
  \<open>k\<close> fails (in extraction, in scoring or in storage), the handler answers with status
  500 and no results list, the files after position \<open>k\<close> are never read, scored or
  stored, and the rows committed for the files before position \<open>k\<close> are in the table,
  appended to the rows that were there. Positions count from 0.
\<close>

theorem abort_at_first_failure:
  assumes "valid_batch files" and "k < length files"
    and "\<forall>j<k. \<exists>v. outcome env jd j (files ! j) = Inr v"
    and "outcome env jd k (files ! k) = Inl e"
  shows "\<exists>new tr. analyze_resumes env jd files db =
            (HTTPError 500 (''Error processing files: '' @ str_exn e), db @ new, tr)
          \<and> length new = k
          \<and> (\<forall>j<k. \<exists>v. scored env jd j (files ! j) = Inr v
                      \<and> row_matches env jd j (files ! j) v (new ! j))
          \<and> (\<forall>j>k. FileRead j \<notin> set tr \<and> ModelCall j \<notin> set tr
                      \<and> DbAdd j \<notin> set tr \<and> DbCommit j \<notin> set tr)"
proof -
  from analyze_abort [OF assms, of db] obtain new t where
    run: "analyze_resumes env jd files db =
            (HTTPError 500 (''Error processing files: '' @ str_exn e), db @ new,
             concat (map file_events [0..<k]) @ FileRead k # t @ [DbRollback, DbClose])"
    and l: "length new = k"
    and d: "\<forall>j<k. \<exists>r. file_done env jd j (files ! j) r (new ! j)"
    and t: "set t \<subseteq> {ModelCall k, DbAdd k, DbCommit k}"
    by blast
  define tr where "tr = concat (map file_events [0..<k]) @ FileRead k # t @ [DbRollback, DbClose]"
  have rows: "\<forall>j<k. \<exists>v. scored env jd j (files ! j) = Inr v
                      \<and> row_matches env jd j (files ! j) v (new ! j)"
    using d unfolding file_done_def by (meson outcome_Inr_scored)
  have later: "\<forall>j>k. FileRead j \<notin> set tr \<and> ModelCall j \<notin> set tr
                      \<and> DbAdd j \<notin> set tr \<and> DbCommit j \<notin> set tr"
  proof (intro allI impI)
    fix j assume j: "k < j"
    have "ev \<in> set tr \<Longrightarrow> ev \<notin> {FileRead j, ModelCall j, DbAdd j, DbCommit j}" for ev
    proof -
      assume "ev \<in> set tr"
      then consider "ev \<in> set (concat (map file_events [0..<k]))" | "ev = FileRead k"
        | "ev \<in> set t" | "ev = DbRollback" | "ev = DbClose"
        unfolding tr_def by auto
      then show ?thesis
      proof cases
        case 1
        from events_below [OF 1] j show ?thesis by auto
      next
        case 3
        with t j show ?thesis by auto
      qed (use j in auto)
    qed
    then show "FileRead j \<notin> set tr \<and> ModelCall j \<notin> set tr
                      \<and> DbAdd j \<notin> set tr \<and> DbCommit j \<notin> set tr" by blast
  qed
  show ?thesis using run l rows later unfolding tr_def by blast
qed

text \<open>The scenario of the specification: three text files, the scoring call fails on the
  second.\<close>

theorem abort_at_first_failure_witness:
  \<open>valid_batch [txt_file ''a.txt'', txt_file ''b.txt'', txt_file ''c.txt''] \<and>
   outcome (test_env [Inr (Some ''{"score":8,"justification":"good"}''),
                      Inl (PyException ''quota exceeded''),
                      Inr (Some ''{"score":5,"justification":"fair"}'')])
      ''jd'' 0 (txt_file ''a.txt'') = Inr (JInt 8, JStr ''good'') \<and>
   outcome (test_env [Inr (Some ''{"score":8,"justification":"good"}''),
                      Inl (PyException ''quota exceeded''),
                      Inr (Some ''{"score":5,"justification":"fair"}'')])
      ''jd'' 1 (txt_file ''b.txt'')
        = Inl (HTTPException 500 ''Error analyzing resume: quota exceeded'') \<and>
   (\<exists>new tr.
      analyze_resumes (test_env [Inr (Some ''{"score":8,"justification":"good"}''),
                      Inl (PyException ''quota exceeded''),
                      Inr (Some ''{"score":5,"justification":"fair"}'')])
        ''jd'' [txt_file ''a.txt'', txt_file ''b.txt'', txt_file ''c.txt''] []
        = (HTTPError 500 ''Error processing files: 500: Error analyzing resume: quota exceeded'',
           new, tr)
      \<and> length new = 1 \<and> row_filename (new ! 0) = ''a.txt'' \<and> row_score (new ! 0) = SqlInteger 8
      \<and> FileRead 2 \<notin> set tr \<and> ModelCall 2 \<notin> set tr \<and> DbAdd 2 \<notin> set tr
      \<and> DbCommit 2 \<notin> set tr)\<close>
proof -
  define E where \<open>E = test_env [Inr (Some ''{"score":8,"justification":"good"}''),
                      Inl (PyException ''quota exceeded''),
                      Inr (Some ''{"score":5,"justification":"fair"}'')]\<close>
  define F where "F = [txt_file ''a.txt'', txt_file ''b.txt'', txt_file ''c.txt'']"
  have v: "valid_batch F" unfolding F_def by code_simp
  have o0: "outcome E ''jd'' 0 (txt_file ''a.txt'') = Inr (JInt 8, JStr ''good'')"
    unfolding E_def by code_simp
  have o1: "outcome E ''jd'' 1 (txt_file ''b.txt'')
              = Inl (HTTPException 500 ''Error analyzing resume: quota exceeded'')"
    unfolding E_def by code_simp
  have s0: "scored E ''jd'' 0 (txt_file ''a.txt'') = Inr (JInt 8, JStr ''good'')"
    using o0 by (rule outcome_Inr_scored)
  have k: "1 < length F" by (simp add: F_def)
  have ok: "\<forall>j<1. \<exists>v. outcome E ''jd'' j (F ! j) = Inr v"
    using o0 by (simp add: F_def)
  have fail: "outcome E ''jd'' 1 (F ! 1)
                = Inl (HTTPException 500 ''Error analyzing resume: quota exceeded'')"
    using o1 by (simp add: F_def)
  from abort_at_first_failure [OF v k ok fail, of "[]"] obtain new tr where
    run: "analyze_resumes E ''jd'' F [] =
            (HTTPError 500 (''Error processing files: '' @
               str_exn (HTTPException 500 ''Error analyzing resume: quota exceeded'')),
             [] @ new, tr)"
    and l: "length new = 1"
    and a: "\<forall>j<1. \<exists>v. scored E ''jd'' j (F ! j) = Inr v
                      \<and> row_matches E ''jd'' j (F ! j) v (new ! j)"
    and t: "\<forall>j>1. FileRead j \<notin> set tr \<and> ModelCall j \<notin> set tr
                      \<and> DbAdd j \<notin> set tr \<and> DbCommit j \<notin> set tr"
    by blast
  have a0: "row_filename (new ! 0) = ''a.txt'' \<and> row_score (new ! 0) = SqlInteger 8"
    using a [rule_format, of 0] s0
    by (auto simp: F_def txt_file_def row_matches_def cells_def db_analysis_of_def)
  have t2: "FileRead 2 \<notin> set tr \<and> ModelCall 2 \<notin> set tr \<and> DbAdd 2 \<notin> set tr
      \<and> DbCommit 2 \<notin> set tr"
    using t [rule_format, of 2] by simp
  have "\<exists>new tr. analyze_resumes E ''jd'' F []
        = (HTTPError 500 ''Error processing files: 500: Error analyzing resume: quota exceeded'',
           new, tr)
      \<and> length new = 1 \<and> row_filename (new ! 0) = ''a.txt'' \<and> row_score (new ! 0) = SqlInteger 8
      \<and> FileRead 2 \<notin> set tr \<and> ModelCall 2 \<notin> set tr \<and> DbAdd 2 \<notin> set tr
      \<and> DbCommit 2 \<notin> set tr"
    using run l a0 t2 by (simp add: str_nat_500 del: str_nat.simps)
  then show ?thesis using v o0 o1 unfolding E_def F_def by blast
qed

subsection \<open>Facts about the columns\<close>



lemma outcome_Inr_cells:
  "outcome env jd i f = Inr v \<Longrightarrow> \<exists>c. cells env (db_analysis_of f jd v) = Inr c"
  by (auto simp: outcome_def split: sum.splits option.splits)




subsection \<open>Facts about the validation\<close>

lemma allowed_iff:
  "allowed file \<longleftrightarrow>
     endswith (lower (filename file)) ''.pdf'' \<or> endswith (lower (filename file)) ''.docx''
     \<or> endswith (lower (filename file)) ''.txt''"
  by (simp add: allowed_def allowed_extensions_def)

lemma analyze_valid_status:
  assumes "valid_batch files"
  shows "(\<exists>rs. fst (analyze_resumes env jd files db) = Results rs)
         \<or> (\<exists>d. fst (analyze_resumes env jd files db) = HTTPError 500 d)"
  by (simp add: analyze_valid [OF assms] split: prod.splits sum.splits)

lemma analyze_valid_trace:
  assumes v: "valid_batch files"
  shows "\<exists>t. snd (snd (analyze_resumes env jd files db)) = FileRead 0 # t"
proof -
  have n: "0 < length files" using v by (simp add: valid_batch_def)
  from first_failure [of "length files" env jd files]
  show ?thesis
  proof
    assume ok: "\<forall>j<length files. \<exists>v. outcome env jd j (files ! j) = Inr v"
    from analyze_ok [OF v ok, of db] obtain rs new where
      "analyze_resumes env jd files db =
         (Results rs, db @ new, concat (map file_events [0..<length files]) @ [DbClose])"
      by blast
    moreover have "[0..<length files] = 0 # [1..<length files]"
      using n by (simp add: upt_rec)
    ultimately show ?thesis by (simp add: file_events_def)
  next
    assume "\<exists>k e. k < length files \<and> (\<forall>j<k. \<exists>v. outcome env jd j (files ! j) = Inr v)
          \<and> outcome env jd k (files ! k) = Inl e"
    then obtain k e where k: "k < length files"
      and ok: "\<forall>j<k. \<exists>v. outcome env jd j (files ! j) = Inr v"
      and fail: "outcome env jd k (files ! k) = Inl e" by blast
    from analyze_abort [OF v k ok fail, of db] obtain new t where
      run: "analyze_resumes env jd files db =
            (HTTPError 500 (''Error processing files: '' @ str_exn e), db @ new,
             concat (map file_events [0..<k]) @ FileRead k # t @ [DbRollback, DbClose])"
      by blast
    show ?thesis
    proof (cases k)
      case 0
      with run show ?thesis by simp
    next
      case (Suc k')
      then have "[0..<k] = 0 # [1..<k]" by (simp add: upt_rec)
      with run show ?thesis by (simp add: file_events_def)
    qed
  qed
qed

text \<open>The validation of the body: it answers with status 400 exactly when it is called
  with an empty batch, with more than 10 files, or with a file whose lower-cased name ends
  in none of \<open>.pdf\<close>, \<open>.docx\<close> and \<open>.txt\<close>; the three cases have their own messages, in
  this order, and leave the table and the trace untouched. A batch of 1 to 10 files with
  allowed names goes on to the processing of its first file.\<close>

lemma analyze_resumes_validation:
  "((\<exists>d. fst (analyze_resumes env jd files db) = HTTPError 400 d) \<longleftrightarrow>
      files = [] \<or> 10 < length files
      \<or> (\<exists>file\<in>set files.
            \<not> (endswith (lower (filename file)) ''.pdf''
               \<or> endswith (lower (filename file)) ''.docx''
               \<or> endswith (lower (filename file)) ''.txt'')))
   \<and> ((\<exists>d. fst (analyze_resumes env jd files db) = HTTPError 400 d) \<longrightarrow>
         snd (analyze_resumes env jd files db) = (db, []))
   \<and> (files = [] \<longrightarrow>
         fst (analyze_resumes env jd files db) = HTTPError 400 ''No files uploaded'')
   \<and> (10 < length files \<longrightarrow>
         fst (analyze_resumes env jd files db) = HTTPError 400 ''Maximum 10 files allowed'')
   \<and> (files \<noteq> [] \<and> length files \<le> 10 \<and> (\<exists>file\<in>set files. \<not> allowed file) \<longrightarrow>
         (\<exists>file\<in>set files. \<not> allowed file \<and>
            fst (analyze_resumes env jd files db)
              = HTTPError 400 (''Unsupported file type: '' @ filename file)))
   \<and> (1 \<le> length files \<and> length files \<le> 10 \<and> (\<forall>file\<in>set files. allowed file) \<longrightarrow>
         (\<exists>t. snd (snd (analyze_resumes env jd files db)) = FileRead 0 # t))"
proof -
  have inv: "\<not> valid_batch files \<longleftrightarrow>
      files = [] \<or> 10 < length files
      \<or> (\<exists>file\<in>set files.
            \<not> (endswith (lower (filename file)) ''.pdf''
               \<or> endswith (lower (filename file)) ''.docx''
               \<or> endswith (lower (filename file)) ''.txt''))"
    by (auto simp: valid_batch_def allowed_iff)
  have status: "(\<exists>d. fst (analyze_resumes env jd files db) = HTTPError 400 d) \<longleftrightarrow>
                  \<not> valid_batch files"
  proof
    assume a: "\<exists>d. fst (analyze_resumes env jd files db) = HTTPError 400 d"
    show "\<not> valid_batch files"
    proof
      assume "valid_batch files"
      from analyze_valid_status [OF this, of env jd db] a show False by auto
    qed
  next
    assume "\<not> valid_batch files"
    from analyze_invalid [OF this, of env jd db] show
      "\<exists>d. fst (analyze_resumes env jd files db) = HTTPError 400 d" by auto
  qed
  have c1: "(\<exists>d. fst (analyze_resumes env jd files db) = HTTPError 400 d) \<longleftrightarrow>
      files = [] \<or> 10 < length files
      \<or> (\<exists>file\<in>set files.
            \<not> (endswith (lower (filename file)) ''.pdf''
               \<or> endswith (lower (filename file)) ''.docx''
               \<or> endswith (lower (filename file)) ''.txt''))"
    using status inv by simp
  have c2: "(\<exists>d. fst (analyze_resumes env jd files db) = HTTPError 400 d) \<longrightarrow>
         snd (analyze_resumes env jd files db) = (db, [])"
  proof
    assume "\<exists>d. fst (analyze_resumes env jd files db) = HTTPError 400 d"
    then have "\<not> valid_batch files" using status by simp
    from analyze_invalid [OF this, of env jd db] show
      "snd (analyze_resumes env jd files db) = (db, [])" by auto
  qed
  have c3: "files = [] \<longrightarrow>
         fst (analyze_resumes env jd files db) = HTTPError 400 ''No files uploaded''"
    by (simp add: analyze_resumes_def)
  have c4: "10 < length files \<longrightarrow>
         fst (analyze_resumes env jd files db) = HTTPError 400 ''Maximum 10 files allowed''"
    by (auto simp: analyze_resumes_def)
  have c5: "files \<noteq> [] \<and> length files \<le> 10 \<and> (\<exists>file\<in>set files. \<not> allowed file) \<longrightarrow>
         (\<exists>file\<in>set files. \<not> allowed file \<and>
            fst (analyze_resumes env jd files db)
              = HTTPError 400 (''Unsupported file type: '' @ filename file))"
  proof
    assume a: "files \<noteq> [] \<and> length files \<le> 10 \<and> (\<exists>file\<in>set files. \<not> allowed file)"
    then obtain bad where b: "find (\<lambda>file. \<not> allowed file) files = Some bad"
      by (cases "find (\<lambda>file. \<not> allowed file) files") (auto simp: find_None_iff)
    then have "bad \<in> set files" "\<not> allowed bad"
      by (auto simp: find_Some_iff)
    moreover have "fst (analyze_resumes env jd files db)
              = HTTPError 400 (''Unsupported file type: '' @ filename bad)"
      using a b by (simp add: analyze_resumes_def)
    ultimately show "\<exists>file\<in>set files. \<not> allowed file \<and>
            fst (analyze_resumes env jd files db)
              = HTTPError 400 (''Unsupported file type: '' @ filename file)" by blast
  qed
  have c6: "1 \<le> length files \<and> length files \<le> 10 \<and> (\<forall>file\<in>set files. allowed file) \<longrightarrow>
         (\<exists>t. snd (snd (analyze_resumes env jd files db)) = FileRead 0 # t)"
  proof
    assume "1 \<le> length files \<and> length files \<le> 10 \<and> (\<forall>file\<in>set files. allowed file)"
    then have "valid_batch files" by (auto simp: valid_batch_def)
    then show "\<exists>t. snd (snd (analyze_resumes env jd files db)) = FileRead 0 # t"
      by (rule analyze_valid_trace)
  qed
  show ?thesis using c1 c2 c3 c4 c5 c6 by blast
qed

text \<open>The endpoint answers with status 400 exactly when both fields are there and the
  batch has more than 10 files or a file with a name that is not allowed.\<close>

lemma post_analyze_400_iff:
  "status (fst (post_analyze env req db)) = 400 \<longleftrightarrow>
     missing_fields req = []
     \<and> (10 < length (form_files req)
        \<or> (\<exists>file\<in>set (form_files req).
              \<not> (endswith (lower (filename file)) ''.pdf''
                 \<or> endswith (lower (filename file)) ''.docx''
                 \<or> endswith (lower (filename file)) ''.txt'')))"
proof (cases "missing_fields req = []")
  case False
  then show ?thesis by (simp add: post_analyze_def split: option.splits)
next
  case True
  then obtain jd where jd: "form_job_description req = Some jd"
    by (cases "form_job_description req") (auto simp: missing_fields_def)
  from True have ne: "form_files req \<noteq> []"
    by (auto simp: missing_fields_def split: if_splits)
  have run: "post_analyze env req db = analyze_resumes env jd (form_files req) db"
    using True jd by (simp add: post_analyze_def)
  have "status (fst (analyze_resumes env jd (form_files req) db)) = 400 \<longleftrightarrow>
          (\<exists>d. fst (analyze_resumes env jd (form_files req) db) = HTTPError 400 d)"
  proof (cases "valid_batch (form_files req)")
    case True
    from analyze_valid_status [OF this, of env jd db] show ?thesis by auto
  next
    case False
    from analyze_invalid [OF this, of env jd db] show ?thesis by auto
  qed
  with analyze_resumes_validation [of env jd "form_files req" db] ne True run
  show ?thesis by simp
qed

text \<open>
  Claim C4 says that a request is rejected with status 400 if and only if the batch has no
  files, has more than 10 files, or has a file with a name that is not allowed. The
  handler does not do that for a request with no files. Its body has the guard
  \<open>if not files\<close>, which raises status 400 with the detail \<open>No files uploaded\<close>, but its
  parameter is declared \<open>files: List[UploadFile] = File(...)\<close>: the framework answers a
  request without files with status 422 and never runs the body.
\<close>

theorem no_files_answered_422:
  "post_analyze env \<lparr>form_job_description = Some ''Python developer'', form_files = []\<rparr> db
     = (Unprocessable [''files''], db, [])
   \<and> status (fst (post_analyze env
         \<lparr>form_job_description = Some ''Python developer'', form_files = []\<rparr> db)) = 422
   \<and> analyze_resumes env ''Python developer'' [] db
     = (HTTPError 400 ''No files uploaded'', db, [])"
  by (simp add: post_analyze_def missing_fields_def analyze_resumes_def)


text \<open>
  Claim C6: the handler only appends to the table. After a request the table is the old
  rows followed by one row for each file of a first part of the batch, in order; each of
  these files was extracted and scored, and its row carries its name, the job description
  and what the table keeps of the values scored. A file whose extraction or scoring fails
  lies outside that first
  part and has no row. The other operation of the system, \<open>GET /\<close>, leaves the table as
  it is.
\<close>

theorem store_append_only:
  "\<exists>m new. m \<le> length files
      \<and> fst (snd (analyze_resumes env jd files db)) = db @ new
      \<and> length new = m
      \<and> (\<forall>j<m. \<exists>v. scored env jd j (files ! j) = Inr v
                    \<and> row_matches env jd j (files ! j) v (new ! j))
      \<and> (\<forall>j<length files. (\<exists>e. scored env jd j (files ! j) = Inl e) \<longrightarrow> m \<le> j)
      \<and> snd (root (fst (snd (analyze_resumes env jd files db))))
           = fst (snd (analyze_resumes env jd files db))"
proof (cases "valid_batch files")
  case False
  from analyze_invalid [OF False, of env jd db]
  have "fst (snd (analyze_resumes env jd files db)) = db @ []" by auto
  then show ?thesis by (intro exI [of _ 0] exI [of _ "[]"]) (simp add: root_def)
next
  case v: True
  from first_failure [of "length files" env jd files]
  show ?thesis
  proof
    assume ok: "\<forall>j<length files. \<exists>v. outcome env jd j (files ! j) = Inr v"
    from analyze_ok [OF v ok, of db] obtain rs new where
      run: "analyze_resumes env jd files db =
         (Results rs, db @ new, concat (map file_events [0..<length files]) @ [DbClose])"
      and l: "length new = length files"
      and d: "\<forall>j<length files. file_done env jd j (files ! j) (rs ! j) (new ! j)"
      by blast
    have rows: "\<forall>j<length files. \<exists>v. scored env jd j (files ! j) = Inr v
                    \<and> row_matches env jd j (files ! j) v (new ! j)"
      using d unfolding file_done_def by (meson outcome_Inr_scored)
    have none: "\<forall>j<length files. (\<exists>e. scored env jd j (files ! j) = Inl e) \<longrightarrow> length files \<le> j"
      using rows by auto
    show ?thesis
      using run l rows none
      by (intro exI [of _ "length files"] exI [of _ new]) (simp add: root_def)
  next
    assume "\<exists>k e. k < length files \<and> (\<forall>j<k. \<exists>v. outcome env jd j (files ! j) = Inr v)
          \<and> outcome env jd k (files ! k) = Inl e"
    then obtain k e where k: "k < length files"
      and ok: "\<forall>j<k. \<exists>v. outcome env jd j (files ! j) = Inr v"
      and fail: "outcome env jd k (files ! k) = Inl e" by blast
    from analyze_abort [OF v k ok fail, of db] obtain new t where
      run: "analyze_resumes env jd files db =
            (HTTPError 500 (''Error processing files: '' @ str_exn e), db @ new,
             concat (map file_events [0..<k]) @ FileRead k # t @ [DbRollback, DbClose])"
      and l: "length new = k"
      and d: "\<forall>j<k. \<exists>r. file_done env jd j (files ! j) r (new ! j)"
      by blast
    have rows: "\<forall>j<k. \<exists>v. scored env jd j (files ! j) = Inr v
                    \<and> row_matches env jd j (files ! j) v (new ! j)"
      using d unfolding file_done_def by (meson outcome_Inr_scored)
    have none: "\<forall>j<length files. (\<exists>e. scored env jd j (files ! j) = Inl e) \<longrightarrow> k \<le> j"
    proof (intro allI impI)
      fix j assume "j < length files" and "\<exists>e. scored env jd j (files ! j) = Inl e"
      then have "\<not> (\<exists>v. scored env jd j (files ! j) = Inr v)" by auto
      with rows have "\<not> j < k" by blast
      then show "k \<le> j" by simp
    qed
    show ?thesis
      using run l rows none k
      by (intro exI [of _ k] exI [of _ new]) (simp add: root_def)
  qed
qed

text \<open>Two text files; the answer for the second has no key \<open>score\<close>: at most the first
  file has a row.\<close>

theorem store_append_only_witness:
  \<open>\<exists>m new. m \<le> 2
      \<and> fst (snd (analyze_resumes
            (test_env [Inr (Some ''{"score":8,"justification":"good"}''),
                       Inr (Some ''{"rating":3}'')])
            ''jd'' [txt_file ''a.txt'', txt_file ''b.txt''] [])) = new
      \<and> length new = m
      \<and> (\<forall>j<m. \<exists>v. scored (test_env [Inr (Some ''{"score":8,"justification":"good"}''),
                       Inr (Some ''{"rating":3}'')]) ''jd'' j
                       ([txt_file ''a.txt'', txt_file ''b.txt''] ! j) = Inr v
                    \<and> row_matches (test_env [Inr (Some ''{"score":8,"justification":"good"}''),
                       Inr (Some ''{"rating":3}'')]) ''jd'' j
                       ([txt_file ''a.txt'', txt_file ''b.txt''] ! j) v (new ! j))
      \<and> m \<le> 1\<close>
proof -
  define E where \<open>E = test_env [Inr (Some ''{"score":8,"justification":"good"}''),
                       Inr (Some ''{"rating":3}'')]\<close>
  define F where "F = [txt_file ''a.txt'', txt_file ''b.txt'']"
  have s1: "scored E ''jd'' 1 (F ! 1) = Inl (KeyError ''score'')"
    unfolding E_def F_def by code_simp
  from store_append_only [of F E "''jd''" "[]"] obtain m new where
    a: "m \<le> length F" "fst (snd (analyze_resumes E ''jd'' F [])) = [] @ new" "length new = m"
       "\<forall>j<m. \<exists>v. scored E ''jd'' j (F ! j) = Inr v \<and> row_matches E ''jd'' j (F ! j) v (new ! j)"
    and b: "\<forall>j<length F. (\<exists>e. scored E ''jd'' j (F ! j) = Inl e) \<longrightarrow> m \<le> j"
    by blast
  have "m \<le> 1" using b [rule_format, of 1] s1 by (simp add: F_def)
  with a show ?thesis unfolding E_def F_def by auto
qed

subsection \<open>Facts about a text of a thousand opening brackets\<close>

lemma strip_replicate: "\<not> isspace c \<Longrightarrow> strip (replicate n c) = replicate n c"
proof -
  assume a: "\<not> isspace c"
  have d: "dropWhile isspace (replicate m c) = replicate m c" for m
    using a by (cases m) simp_all
  show ?thesis using a by (simp add: strip_def d)
qed

lemma brackets_facts:
  "strip (replicate 1000 CHR ''['') = replicate 1000 CHR ''[''"
  "clean_response (replicate 1000 CHR ''['') = replicate 1000 CHR ''[''"
  "test_json_loads (replicate 1000 CHR ''['') = Inl (PyException
             ''maximum recursion depth exceeded while decoding a JSON array from a unicode string'')"
proof -
  have sp: "\<not> isspace CHR ''[''" by (simp add: isspace_def)
  show s: "strip (replicate 1000 CHR ''['') = replicate 1000 CHR ''[''"
    using sp by (rule strip_replicate)
  have hd: "replicate 1000 CHR ''['' = CHR ''['' # replicate 999 CHR ''[''"
    by (simp add: replicate_Suc [symmetric] del: replicate_Suc)
  have n1: "\<not> startswith (replicate 1000 CHR ''['') ''```json''"
    "\<not> startswith (replicate 1000 CHR ''['') ''```''"
    by (simp_all add: hd startswith_def)
  have lst: "drop 997 (replicate 1000 CHR ''['') = replicate 3 CHR ''[''"
    by simp
  have n2: "\<not> endswith (replicate 1000 CHR ''['') ''```''"
    by (simp add: endswith_def lst eval_nat_numeral)
  show "clean_response (replicate 1000 CHR ''['') = replicate 1000 CHR ''[''"
    by (simp add: clean_response_def s n1 n2 del: replicate.simps)
  have ne: "replicate 1000 CHR ''['' \<noteq> ys" if "hd ys \<noteq> CHR ''[''" for ys
    using that by (auto simp: hd)
  have la: "list_all (\<lambda>c. c = CHR ''['') (replicate 1000 CHR ''['')"
    by (simp add: list_all_iff)
  show "test_json_loads (replicate 1000 CHR ''['') = Inl (PyException
             ''maximum recursion depth exceeded while decoding a JSON array from a unicode string'')"
    unfolding test_json_loads_def using la by (simp add: ne del: replicate.simps)
qed

lemma parse_txt: "parse_resume_file (test_env replies) (txt_file ''a.txt'') = Inr ''hi''"
  by code_simp

text \<open>
  Claim C8 says that every non-empty model response whose post-processed text is not valid
  JSON makes the scoring client fail with the \<open>InvalidResponseFormat\<close> error, not with
  \<open>ScoringFailed\<close>. The code gives the \<open>Invalid JSON response from Gemini\<close> error only
  for a \<open>json.JSONDecodeError\<close>, and \<open>json.loads\<close> does not raise that for every text that
  is not valid JSON: on a thousand opening brackets it raises \<open>RecursionError\<close>, which
  the clause \<open>except Exception\<close> reports as \<open>Error analyzing resume\<close>. The handler
  answers with status 500 all the same.
\<close>

theorem invalid_json_counterexample:
  \<open>strip (replicate 1000 CHR ''['') \<noteq> []
   \<and> clean_response (replicate 1000 CHR ''['') = replicate 1000 CHR ''[''
   \<and> json_loads (test_env [Inr (Some (replicate 1000 CHR ''[''))]) (replicate 1000 CHR ''['')
     = Inl (PyException
         ''maximum recursion depth exceeded while decoding a JSON array from a unicode string'')
   \<and> get_analysis (test_env [Inr (Some (replicate 1000 CHR ''[''))]) 0 ''hi'' ''jd''
     = Inl (HTTPException 500
         ''Error analyzing resume: maximum recursion depth exceeded while decoding a JSON array from a unicode string'')
   \<and> fst (analyze_resumes (test_env [Inr (Some (replicate 1000 CHR ''[''))])
          ''jd'' [txt_file ''a.txt''] [])
     = HTTPError 500
         ''Error processing files: 500: Error analyzing resume: maximum recursion depth exceeded while decoding a JSON array from a unicode string''\<close>
proof -
  define X where "X = replicate 1000 CHR ''[''"
  define E where "E = test_env [Inr (Some X)]"
  define F where "F = [txt_file ''a.txt'']"
  have st: "strip X \<noteq> []" unfolding X_def by (simp add: brackets_facts(1))
  have cl: "clean_response X = X" unfolding X_def by (rule brackets_facts(2))
  have jl: "json_loads E (clean_response X) = Inl (PyException
         ''maximum recursion depth exceeded while decoding a JSON array from a unicode string'')"
    unfolding cl unfolding E_def X_def by (simp add: test_env_def brackets_facts(3))
  have gc: "generate_content E 0 (prompt ''hi'' ''jd'') = Inr (Inr (Some X))"
    unfolding E_def by (simp add: test_env_def)
  have g: "get_analysis E 0 ''hi'' ''jd'' = Inl (HTTPException 500
         ''Error analyzing resume: maximum recursion depth exceeded while decoding a JSON array from a unicode string'')"
    using get_analysis_parsed [OF gc st] jl by simp
  have v: "valid_batch F" unfolding F_def by code_simp
  have k: "0 < length F" by (simp add: F_def)
  have ok: "\<forall>j<0. \<exists>v. outcome E ''jd'' j (F ! j) = Inr v" by simp
  have p: "parse_resume_file E (F ! 0) = Inr ''hi''"
    unfolding E_def F_def by (simp add: parse_txt)
  have "scored E ''jd'' 0 (F ! 0) = Inl (HTTPException 500
         ''Error analyzing resume: maximum recursion depth exceeded while decoding a JSON array from a unicode string'')"
    using p g by (simp add: scored_def)
  then have fail: "outcome E ''jd'' 0 (F ! 0) = Inl (HTTPException 500
         ''Error analyzing resume: maximum recursion depth exceeded while decoding a JSON array from a unicode string'')"
    by (rule scored_Inl_outcome)
  from analyze_abort [OF v k ok fail, of "[]"]
  have h: "fst (analyze_resumes E ''jd'' F []) = HTTPError 500
         ''Error processing files: 500: Error analyzing resume: maximum recursion depth exceeded while decoding a JSON array from a unicode string''"
    by (auto simp: str_nat_500 simp del: str_nat.simps)
  note st' = st [unfolded X_def]
  note jl' = jl [unfolded cl, unfolded E_def X_def]
  note g' = g [unfolded E_def X_def]
  note h' = h [unfolded E_def F_def X_def]
  show ?thesis using st' brackets_facts(2) jl' g' h' by blast
qed

text \<open>
  Claim C8 as amended: when the model response is not empty and \<open>json.loads\<close> rejects the
  post-processed text with a \<open>JSONDecodeError\<close>, the scoring client raises the
  \<open>Invalid JSON response from Gemini\<close> error with the parser's message, not the
  \<open>Error analyzing resume\<close> one, and the handler answers with status 500.
\<close>

theorem invalid_json_gives_500:
  assumes "valid_batch files" and "k < length files"
    and "\<forall>j<k. \<exists>v. outcome env jd j (files ! j) = Inr v"
    and "parse_resume_file env (files ! k) = Inr resume_text"
    and "generate_content env k (prompt resume_text jd) = Inr (Inr (Some text))"
    and "strip text \<noteq> []"
    and "json_loads env (clean_response text) = Inl (JSONDecodeError m)"
  shows "get_analysis env k resume_text jd
           = Inl (HTTPException 500 (''Invalid JSON response from Gemini: '' @ m))
         \<and> (\<exists>new tr. analyze_resumes env jd files db =
               (HTTPError 500
                  (''Error processing files: 500: Invalid JSON response from Gemini: '' @ m),
                db @ new, tr)
              \<and> length new = k)"
proof -
  have g: "get_analysis env k resume_text jd
           = Inl (HTTPException 500 (''Invalid JSON response from Gemini: '' @ m))"
    using get_analysis_parsed [OF assms(5,6)] assms(7) by simp
  have "scored env jd k (files ! k)
           = Inl (HTTPException 500 (''Invalid JSON response from Gemini: '' @ m))"
    using assms(4) g by (simp add: scored_def)
  then have fail: "outcome env jd k (files ! k)
           = Inl (HTTPException 500 (''Invalid JSON response from Gemini: '' @ m))"
    by (rule scored_Inl_outcome)
  from analyze_abort [OF assms(1,2,3) fail, of db] obtain new t where
      run: "analyze_resumes env jd files db =
            (HTTPError 500 (''Error processing files: '' @
               str_exn (HTTPException 500 (''Invalid JSON response from Gemini: '' @ m))),
             db @ new,
             concat (map file_events [0..<k]) @ FileRead k # t @ [DbRollback, DbClose])"
      and l: "length new = k"
    by blast
  have "analyze_resumes env jd files db =
               (HTTPError 500
                  (''Error processing files: 500: Invalid JSON response from Gemini: '' @ m),
                db @ new,
                concat (map file_events [0..<k]) @ FileRead k # t @ [DbRollback, DbClose])"
    using run by (simp add: str_nat_500 del: str_nat.simps)
  with g l show ?thesis by blast
qed

text \<open>The model answers in prose.\<close>

theorem invalid_json_gives_500_witness:
  \<open>get_analysis (test_env [Inr (Some ''Sure! The score is 7.'')]) 0 ''hi'' ''jd''
     = Inl (HTTPException 500
         ''Invalid JSON response from Gemini: Expecting value: line 1 column 1 (char 0)'')
   \<and> (\<exists>new tr.
        analyze_resumes (test_env [Inr (Some ''Sure! The score is 7.'')])
          ''jd'' [txt_file ''a.txt''] []
        = (HTTPError 500 ''Error processing files: 500: Invalid JSON response from Gemini: Expecting value: line 1 column 1 (char 0)'',
           new, tr)
        \<and> length new = 0)\<close>
proof -
  define E where \<open>E = test_env [Inr (Some ''Sure! The score is 7.'')]\<close>
  define F where "F = [txt_file ''a.txt'']"
  have v: "valid_batch F" unfolding F_def by code_simp
  have ok: "\<forall>j<0. \<exists>v. outcome E ''jd'' j (F ! j) = Inr v" by simp
  have k: "0 < length F" by (simp add: F_def)
  have p: "parse_resume_file E (F ! 0) = Inr ''hi''"
    unfolding E_def F_def by code_simp
  have gc: \<open>generate_content E 0 (prompt ''hi'' ''jd'')
              = Inr (Inr (Some ''Sure! The score is 7.''))\<close>
    unfolding E_def by (simp add: test_env_def)
  have st: \<open>strip ''Sure! The score is 7.'' \<noteq> []\<close>
    by code_simp
  have jl: \<open>json_loads E (clean_response ''Sure! The score is 7.'')
              = Inl (JSONDecodeError ''Expecting value: line 1 column 1 (char 0)'')\<close>
    unfolding E_def by code_simp
  show ?thesis
    using invalid_json_gives_500 [OF v k ok p gc st jl, of "[]"]
    unfolding E_def F_def by simp
qed





text \<open>
  Claim C10: when the scoring client returns a JSON value that is not an object with both
  keys \<open>score\<close> and \<open>justification\<close>, a subscript of the handler raises, the handler
  answers with status 500, and the file gets no row: no \<open>db.add\<close> and no \<open>db.commit\<close>
  happens for it.
\<close>

theorem missing_key_aborts:
  assumes "valid_batch files" and "k < length files"
    and "\<forall>j<k. \<exists>v. outcome env jd j (files ! j) = Inr v"
    and "parse_resume_file env (files ! k) = Inr resume_text"
    and "get_analysis env k resume_text jd = Inr analysis"
    and "\<not> has_key analysis ''score'' \<or> \<not> has_key analysis ''justification''"
  shows "\<exists>e new tr.
           (getitem analysis ''score'' = Inl e \<or> getitem analysis ''justification'' = Inl e)
         \<and> analyze_resumes env jd files db =
               (HTTPError 500 (''Error processing files: '' @ str_exn e), db @ new, tr)
         \<and> length new = k \<and> DbAdd k \<notin> set tr \<and> DbCommit k \<notin> set tr"
proof -
  have "\<exists>e. scored env jd k (files ! k) = Inl e
            \<and> (getitem analysis ''score'' = Inl e \<or> getitem analysis ''justification'' = Inl e)"
  proof (cases "getitem analysis ''score''")
    case (Inl e)
    then show ?thesis using assms(4,5) by (simp add: scored_def)
  next
    case (Inr sc)
    then have "has_key analysis ''score''" by (auto simp: has_key_getitem)
    with assms(6) have "\<not> has_key analysis ''justification''" by simp
    then obtain e where "getitem analysis ''justification'' = Inl e"
      by (cases "getitem analysis ''justification''") (auto simp: has_key_getitem)
    then show ?thesis using Inr assms(4,5) by (simp add: scored_def)
  qed
  then obtain e where s: "scored env jd k (files ! k) = Inl e"
    and g: "getitem analysis ''score'' = Inl e \<or> getitem analysis ''justification'' = Inl e"
    by blast
  from s have fail: "outcome env jd k (files ! k) = Inl e" by (rule scored_Inl_outcome)
  from analyze_abort [OF assms(1,2,3) fail, of db] obtain new t where
      run: "analyze_resumes env jd files db =
            (HTTPError 500 (''Error processing files: '' @ str_exn e), db @ new,
             concat (map file_events [0..<k]) @ FileRead k # t @ [DbRollback, DbClose])"
      and l: "length new = k"
      and t: "(\<exists>e'. scored env jd k (files ! k) = Inl e') \<longrightarrow> set t \<subseteq> {ModelCall k}"
    by blast
  define tr where "tr = concat (map file_events [0..<k]) @ FileRead k # t @ [DbRollback, DbClose]"
  have t': "set t \<subseteq> {ModelCall k}" using t s by blast
  have "ev \<in> set tr \<Longrightarrow> ev \<noteq> DbAdd k \<and> ev \<noteq> DbCommit k" for ev
  proof -
    assume "ev \<in> set tr"
    then consider "ev \<in> set (concat (map file_events [0..<k]))" | "ev = FileRead k"
      | "ev \<in> set t" | "ev = DbRollback" | "ev = DbClose"
      unfolding tr_def by auto
    then show ?thesis
    proof cases
      case 1
      from events_below [OF 1] show ?thesis by auto
    next
      case 3
      with t' show ?thesis by auto
    qed auto
  qed
  then have "DbAdd k \<notin> set tr \<and> DbCommit k \<notin> set tr" by blast
  with g run l show ?thesis unfolding tr_def by blast
qed

text \<open>The model answers with an object that has another key.\<close>

theorem missing_key_aborts_witness:
  \<open>get_analysis (test_env [Inr (Some ''{"rating":3}'')]) 0 ''hi'' ''jd''
     = Inr (JObj [(''rating'', JInt 3)])
   \<and> \<not> has_key (JObj [(''rating'', JInt 3)]) ''score''
   \<and> (\<exists>e new tr.
         (getitem (JObj [(''rating'', JInt 3)]) ''score'' = Inl e
          \<or> getitem (JObj [(''rating'', JInt 3)]) ''justification'' = Inl e)
        \<and> analyze_resumes (test_env [Inr (Some ''{"rating":3}'')])
          ''jd'' [txt_file ''a.txt''] []
        = (HTTPError 500 (''Error processing files: '' @ str_exn e), new, tr)
        \<and> length new = 0 \<and> DbAdd 0 \<notin> set tr \<and> DbCommit 0 \<notin> set tr)\<close>
proof -
  define E where \<open>E = test_env [Inr (Some ''{"rating":3}'')]\<close>
  define F where "F = [txt_file ''a.txt'']"
  have v: "valid_batch F" unfolding F_def by code_simp
  have ok: "\<forall>j<0. \<exists>v. outcome E ''jd'' j (F ! j) = Inr v" by simp
  have k: "0 < length F" by (simp add: F_def)
  have p: "parse_resume_file E (F ! 0) = Inr ''hi''"
    unfolding E_def F_def by code_simp
  have g: "get_analysis E 0 ''hi'' ''jd'' = Inr (JObj [(''rating'', JInt 3)])"
    unfolding E_def by code_simp
  have h: "\<not> has_key (JObj [(''rating'', JInt 3)]) ''score''"
    by (simp add: has_key_def)
  then have h': "\<not> has_key (JObj [(''rating'', JInt 3)]) ''score''
                 \<or> \<not> has_key (JObj [(''rating'', JInt 3)]) ''justification''" by simp
  show ?thesis
    using g h missing_key_aborts [OF v k ok p g h', of "[]"]
    unfolding E_def F_def by simp
qed

end
